theory Spec2Isabelle
  imports Main "HOL-Library.Sublist"
begin

section \<open>Python strings\<close>

text \<open>
  A Python \<open>str\<close> is a sequence of Unicode code points. Isabelle's \<open>char\<close> is a byte, so a
  \<open>str\<close> is modelled as a list of code points (\<open>nat\<close>); \<open>lit\<close> turns an ASCII literal
  into that form and \<open>py_lines\<close> joins literal lines with the newline (code point 10).
  The functions below are the fragments of the \<open>str\<close> methods that the repository's code
  calls.
\<close>

type_synonym pystr = "nat list"

definition lit :: "string \<Rightarrow> pystr" where
  "lit s = map of_char s"

text \<open>\<open>str(n)\<close> for a non-negative integer: its decimal digits.\<close>

fun str_nat :: "nat \<Rightarrow> pystr" where
  "str_nat n = (if n < 10 then [48 + n] else str_nat (n div 10) @ [48 + n mod 10])"

text \<open>\<open>sep.join(xs)\<close>.\<close>

fun py_join :: "pystr \<Rightarrow> pystr list \<Rightarrow> pystr" where
  "py_join sep [] = []"
| "py_join sep [x] = x"
| "py_join sep (x # y # ys) = x @ sep @ py_join sep (y # ys)"

definition py_lines :: "string list \<Rightarrow> pystr" where
  "py_lines ls = py_join [10] (map lit ls)"

text \<open>\<open>sub in s\<close>: \<open>sub\<close> occurs in \<open>s\<close> as a contiguous run.\<close>

fun py_in :: "pystr \<Rightarrow> pystr \<Rightarrow> bool" where
  "py_in sub [] = (sub = [])"
| "py_in sub (c # cs) = (prefix sub (c # cs) \<or> py_in sub cs)"

text \<open>
  \<open>str.isspace\<close> for one code point, which is also what \<open>\s\<close> matches in a \<open>str\<close>
  pattern: the ASCII white space and separators, and Unicode's white-space code points.
\<close>

definition is_space :: "nat \<Rightarrow> bool" where
  "is_space c \<longleftrightarrow>
     (9 \<le> c \<and> c \<le> 13) \<or> (28 \<le> c \<and> c \<le> 32) \<or> c = 0x85 \<or> c = 0xA0 \<or> c = 0x1680 \<or>
     (0x2000 \<le> c \<and> c \<le> 0x200A) \<or> c = 0x2028 \<or> c = 0x2029 \<or> c = 0x202F \<or>
     c = 0x205F \<or> c = 0x3000"

text \<open>\<open>s.strip()\<close>: white space removed at both ends.\<close>

definition py_strip :: "pystr \<Rightarrow> pystr" where
  "py_strip s = rev (dropWhile is_space (rev (dropWhile is_space s)))"

section \<open>Input sanitization (\<open>_clean_input\<close>)\<close>

text \<open>
  \<open>input_str.encode('utf-8', errors='ignore').decode('utf-8')\<close>: the code points that
  UTF-8 cannot encode are the surrogates U+D800 to U+DFFF; \<open>errors='ignore'\<close> drops them,
  and decoding gives back the rest.
\<close>

definition utf8_ignore :: "pystr \<Rightarrow> pystr" where
  "utf8_ignore s = filter (\<lambda>c. \<not> (0xD800 \<le> c \<and> c \<le> 0xDFFF)) s"

text \<open>\<open>cleaned.replace(char, '')\<close> for a one-character \<open>char\<close>: every occurrence goes.\<close>

definition replace_char :: "pystr \<Rightarrow> nat \<Rightarrow> pystr" where
  "replace_char s ch = filter (\<lambda>c. c \<noteq> ch) s"

text \<open>The string \<open>zero_width\<close> of the source: U+200B, U+200C, U+200D, U+FEFF, U+2060.\<close>

definition zero_width :: pystr where
  "zero_width = [0x200B, 0x200C, 0x200D, 0xFEFF, 0x2060]"

text \<open>
  \<open>LLMClient._clean_input\<close> (llm_client.py): the round trip through UTF-8, the loop over
  \<open>zero_width\<close>, and the filter that keeps a character when \<open>ord(char) >= 32\<close> or it is
  one of \<open>'\n\r\t'\<close>.
\<close>

definition LLMClient_clean_input :: "pystr \<Rightarrow> pystr" where
  "LLMClient_clean_input input_str =
     (let cleaned = utf8_ignore input_str;
          cleaned = foldl replace_char cleaned zero_width;
          cleaned = filter (\<lambda>ch. ch \<ge> 32 \<or> ch \<in> set [10, 13, 9]) cleaned
      in cleaned)"

text \<open>\<open>NumaClient._clean_input\<close> (numa_client.py) has the same body.\<close>

definition NumaClient_clean_input :: "pystr \<Rightarrow> pystr" where
  "NumaClient_clean_input input_str =
     (let cleaned = utf8_ignore input_str;
          cleaned = foldl replace_char cleaned zero_width;
          cleaned = filter (\<lambda>ch. ch \<ge> 32 \<or> ch \<in> set [10, 13, 9]) cleaned
      in cleaned)"

section \<open>Exceptions and the remote client's retry\<close>

text \<open>
  The exceptions derived from \<open>Exception\<close> that the code raises or tests for, each with the
  text that \<open>str(e)\<close> gives. \<open>HTTPStatusError\<close> also carries the status code of its response.
  \<open>OtherException\<close> stands for every other class derived from \<open>Exception\<close>.
\<close>

datatype exn =
    RateLimitError pystr
  | JSONDecodeError pystr
  | HTTPStatusError nat pystr
  | RuntimeError pystr
  | ValueError pystr
  | OtherException pystr

fun exn_str :: "exn \<Rightarrow> pystr" where
  "exn_str (RateLimitError m) = m"
| "exn_str (JSONDecodeError m) = m"
| "exn_str (HTTPStatusError code m) = m"
| "exn_str (RuntimeError m) = m"
| "exn_str (ValueError m) = m"
| "exn_str (OtherException m) = m"

text \<open>\<open>is_server_or_retry_error\<close> (llm_client.py).\<close>

fun is_server_or_retry_error :: "exn \<Rightarrow> bool" where
  "is_server_or_retry_error (RateLimitError m) = True"
| "is_server_or_retry_error (JSONDecodeError m) = True"
| "is_server_or_retry_error (HTTPStatusError code m) = (500 \<le> code \<and> code < 600)"
| "is_server_or_retry_error e = False"

text \<open>
  The decorator on \<open>_generate_response_with_retry\<close> is tenacity's
  \<open>retry(stop=stop_after_attempt(4), wait=..., retry=retry_if_exception(...), reraise=True)\<close>.
  Its loop, with the waiting left out: call the function; a result is returned; an
  exception that the predicate rejects propagates at once; an exception that the predicate
  accepts is raised again (\<open>reraise=True\<close>) when the attempt number has reached the stop
  bound, and otherwise the function is called again with the next attempt number.
  \<open>fn k\<close> is the outcome of the \<open>k\<close>-th call, attempts being numbered from 1, and the
  result is the number of the last attempt with its outcome.
\<close>

function tenacity_retry ::
  "nat \<Rightarrow> (exn \<Rightarrow> bool) \<Rightarrow> (nat \<Rightarrow> exn + 'r) \<Rightarrow> nat \<Rightarrow> nat \<times> (exn + 'r)" where
  "tenacity_retry stop_after retry_if fn attempt_number =
     (case fn attempt_number of
        Inr r \<Rightarrow> (attempt_number, Inr r)
      | Inl e \<Rightarrow>
          if \<not> retry_if e then (attempt_number, Inl e)
          else if attempt_number \<ge> stop_after then (attempt_number, Inl e)
          else tenacity_retry stop_after retry_if fn (Suc attempt_number))"
  by pat_completeness auto
termination
  by (relation "measure (\<lambda>(stop_after, retry_if, fn, attempt_number). stop_after - attempt_number)")
    auto

declare tenacity_retry.simps [simp del]

text \<open>
  The body of \<open>LLMClient._generate_response_with_retry\<close>: it returns what
  \<open>_generate_response\<close> returns, its \<open>except (httpx.HTTPStatusError, RateLimitError)\<close>
  clause raises the caught exception again, and every other exception passes through.
\<close>

definition generate_response_with_retry_body :: "exn + 'r \<Rightarrow> exn + 'r" where
  "generate_response_with_retry_body outcome =
     (case outcome of
        Inr r \<Rightarrow> Inr r
      | Inl (HTTPStatusError code m) \<Rightarrow> Inl (HTTPStatusError code m)
      | Inl (RateLimitError m) \<Rightarrow> Inl (RateLimitError m)
      | Inl e \<Rightarrow> Inl e)"

text \<open>
  \<open>LLMClient._generate_response_with_retry\<close> as decorated. \<open>generate_response k\<close> is the
  outcome of the \<open>k\<close>-th call of \<open>self._generate_response\<close>.
\<close>

definition generate_response_with_retry :: "(nat \<Rightarrow> exn + 'r) \<Rightarrow> nat \<times> (exn + 'r)" where
  "generate_response_with_retry generate_response =
     tenacity_retry 4 is_server_or_retry_error
       (\<lambda>k. generate_response_with_retry_body (generate_response k)) 1"

section \<open>The knowledge models (knowledge_models.py)\<close>

text \<open>
  The pydantic models as records. Field names carry a prefix, since several models share
  \<open>uuid\<close>, \<open>name\<close>, \<open>summary\<close> and \<open>group_id\<close>. An episode's \<open>valid_at\<close> is kept as the
  text that \<open>isoformat()\<close> gives, which is all the extractor reads of it; the \<open>created_at\<close>
  time stamps are left out of the records, no behaviour below reads them.
\<close>

datatype EpisodeType =
    EpisodeType_message
  | EpisodeType_text
  | EpisodeType_json
  | EpisodeType_conversation

record EpisodicNode =
  ep_uuid :: pystr
  ep_group_id :: pystr
  ep_source :: EpisodeType
  ep_content :: pystr
  ep_source_description :: "pystr option"
  ep_valid_at :: pystr

record EntityNode =
  en_uuid :: pystr
  en_name :: pystr
  en_labels :: "pystr list"
  en_summary :: pystr
  en_group_id :: pystr

record EdgeNode =
  ed_uuid :: pystr
  ed_source_node_uuid :: pystr
  ed_target_node_uuid :: pystr
  ed_relation_type :: pystr
  ed_summary :: pystr
  ed_group_id :: pystr

record ExtractedEntity =
  ee_name :: pystr
  ee_entity_type_id :: int
  ee_summary :: "pystr option"

record ExtractedEdge =
  xe_source_name :: pystr
  xe_target_name :: pystr
  xe_relation_type :: pystr
  xe_summary :: "pystr option"

record Message =
  role :: pystr
  content :: pystr

text \<open>The \<open>response_model\<close> argument of \<open>generate_response\<close>: which result is asked for.\<close>

datatype response_model = ExtractedEntities | ExtractedEdges | MissedEntities | DuplicateEntities

section \<open>The extraction backend\<close>

text \<open>
  \<open>generate_response\<close> returns a dict, of which the extractor reads the keys
  \<open>extracted_entities\<close>, \<open>extracted_edges\<close> and \<open>missed_entities\<close> with \<open>.get(key, [])\<close>.
  A key that is absent is \<open>None\<close> here; the entries are taken to be well-formed, so that
  \<open>ExtractedEntity(**entity_data)\<close> and \<open>ExtractedEdge(**edge_data)\<close> succeed.
\<close>

record llm_response =
  extracted_entities :: "ExtractedEntity list option"
  extracted_edges :: "ExtractedEdge list option"
  missed_entities :: "pystr list option"

definition empty_response :: llm_response where
  "empty_response = \<lparr>extracted_entities = None, extracted_edges = None, missed_entities = None\<rparr>"

definition get_or_empty :: "'a list option \<Rightarrow> 'a list" where
  "get_or_empty v = (case v of None \<Rightarrow> [] | Some xs \<Rightarrow> xs)"

text \<open>
  A call of the client's \<open>generate_response(messages, response_model)\<close> is a request. A
  client is a function from the requests made so far and the current request to the outcome
  of the call, an exception or a response: it may answer the same request differently each
  time, as a language model does. Every function below takes the list of the requests made
  so far and returns it extended by the requests it made, so that the calls of the backend
  can be counted and read.
\<close>

type_synonym request = "Message list \<times> response_model"

type_synonym client = "request list \<Rightarrow> request \<Rightarrow> exn + llm_response"

definition generate_response ::
  "client \<Rightarrow> request list \<Rightarrow> request \<Rightarrow> request list \<times> (exn + llm_response)" where
  "generate_response cl log req = (log @ [req], cl log req)"

section \<open>The reflexion loop and edge extraction (numa_extractor.py)\<close>

definition MAX_REFLEXION_ITERATIONS :: nat where
  "MAX_REFLEXION_ITERATIONS = 3"

record entity_type_context =
  entity_type_id :: nat
  entity_type_name :: pystr
  entity_type_description :: "pystr option"

text \<open>
  The \<open>entity_types\<close> argument: \<open>None\<close>, a dict from type names to classes (of which the
  code reads \<open>__doc__\<close>, a string or \<open>None\<close>), or a list (of which the code reads \<open>str(et)\<close>
  of each element, given here).
\<close>

datatype entity_types_arg =
    EntityTypesNone
  | EntityTypesDict "(pystr \<times> pystr option) list"
  | EntityTypesList "pystr list"

definition default_entity_type :: entity_type_context where
  "default_entity_type =
     \<lparr>entity_type_id = 0, entity_type_name = lit ''Entity'',
      entity_type_description = Some (lit
        ''Default entity classification. Use this entity type if the entity is not one of the other listed types.'')\<rparr>"

fun entity_types_context :: "entity_types_arg \<Rightarrow> entity_type_context list" where
  "entity_types_context EntityTypesNone = [default_entity_type]"
| "entity_types_context (EntityTypesDict items) =
     [default_entity_type] @
     map (\<lambda>(i, (type_name, doc)).
            \<lparr>entity_type_id = i + 1, entity_type_name = type_name,
             entity_type_description = doc\<rparr>)
         (enumerate 0 items)"
| "entity_types_context (EntityTypesList ets) =
     [default_entity_type] @
     map (\<lambda>(i, et).
            \<lparr>entity_type_id = i + 1, entity_type_name = et,
             entity_type_description = Some (lit ''Entity type: '' @ et)\<rparr>)
         (enumerate 0 ets)"

text \<open>The \<open>context\<close> dict of \<open>extract_nodes\<close>.\<close>

record extract_context =
  cx_episode_content :: pystr
  cx_episode_timestamp :: pystr
  cx_previous_episodes :: "pystr list"
  cx_custom_prompt :: pystr
  cx_entity_types :: "entity_type_context list"
  cx_source_description :: "pystr option"

subsection \<open>The prompts\<close>

text \<open>
  The f-strings render lists and dicts with \<open>repr\<close>. \<open>py_repr_str\<close> puts a string between
  apostrophes, which is Python's \<open>repr\<close> of a string that holds no apostrophe, no backslash
  and no unprintable character; other strings Python quotes or escapes differently, which
  is not modelled.
\<close>

definition py_repr_str :: "pystr \<Rightarrow> pystr" where
  "py_repr_str s = [39] @ s @ [39]"

definition py_repr_opt_str :: "pystr option \<Rightarrow> pystr" where
  "py_repr_opt_str v = (case v of None \<Rightarrow> lit ''None'' | Some s \<Rightarrow> py_repr_str s)"

definition py_repr_str_list :: "pystr list \<Rightarrow> pystr" where
  "py_repr_str_list xs = lit ''['' @ py_join (lit '', '') (map py_repr_str xs) @ lit '']''"

definition py_repr_entity_type :: "entity_type_context \<Rightarrow> pystr" where
  "py_repr_entity_type t =
     lit ''{'' @ py_repr_str (lit ''entity_type_id'') @ lit '': '' @ str_nat (entity_type_id t) @
     lit '', '' @ py_repr_str (lit ''entity_type_name'') @ lit '': '' @
       py_repr_str (entity_type_name t) @
     lit '', '' @ py_repr_str (lit ''entity_type_description'') @ lit '': '' @
       py_repr_opt_str (entity_type_description t) @
     lit ''}''"

definition py_repr_entity_types :: "entity_type_context list \<Rightarrow> pystr" where
  "py_repr_entity_types ts = lit ''['' @ py_join (lit '', '') (map py_repr_entity_type ts) @ lit '']''"

definition extract_message_system_message :: pystr where
  "extract_message_system_message = py_lines
    [''You are an AI assistant that extracts entity nodes from conversational messages.'',
     '''',
     ''Your task is to extract entity nodes mentioned **explicitly or implicitly** in the CURRENT MESSAGE.'',
     '''',
     ''**EXCLUDE** entities mentioned only in the PREVIOUS MESSAGES (they are for context only).'',
     '''',
     ''Guidelines:'',
     ''1. Extract all entities, concepts, or actors mentioned in the current message'',
     ''2. Include people, places, organizations, objects, concepts, events, and any other significant entities'',
     ''3. Use the provided entity types to classify each entity'',
     ''4. Provide a brief summary for each entity if additional context is available'',
     ''5. Only extract entities that are actually mentioned or referenced in the current message'']"

definition extract_text_system_message :: pystr where
  "extract_text_system_message = py_lines
    [''You are an AI assistant that extracts entity nodes from text.'',
     '''',
     ''Your task is to extract all significant entities, concepts, or actors mentioned in the TEXT.'',
     '''',
     ''Guidelines:'',
     ''1. Extract all significant entities, concepts, or actors mentioned in the text'',
     ''2. Include people, places, organizations, objects, concepts, events, and any other significant entities'',
     ''3. Use the provided entity types to classify each entity'',
     ''4. Provide a brief summary for each entity if additional context is available'',
     ''5. Be thorough but precise in your extraction'']"

definition extract_json_system_message :: pystr where
  "extract_json_system_message = py_lines
    [''You are an AI assistant that extracts entity nodes from JSON data.'',
     '''',
     ''Your task is to extract all significant entities, concepts, or actors mentioned in the JSON.'',
     '''',
     ''Guidelines:'',
     ''1. Extract entities from both keys and values in the JSON'',
     ''2. Include people, places, organizations, objects, concepts, events, and any other significant entities'',
     ''3. Use the provided entity types to classify each entity'',
     ''4. Provide a brief summary for each entity if additional context is available'',
     ''5. Parse the JSON structure to understand the data context'']"

definition reflexion_system_message :: pystr where
  "reflexion_system_message = py_lines
    [''You are an AI assistant that reviews entity extractions to find missed entities.'',
     '''',
     ''Your task is to identify important entities that may have been overlooked in the initial extraction.'',
     '''',
     ''Guidelines:'',
     ''1. Review the episode content and previously extracted entities'',
     ''2. Look for important entities that were missed'',
     ''3. Only suggest entities that are clearly mentioned or strongly implied'',
     ''4. Focus on entities that are significant to understanding the content'',
     ''5. Do not suggest entities that are too generic or not clearly present'']"

definition extract_edges_system_message :: pystr where
  "extract_edges_system_message = py_lines
    [''You are an AI assistant that extracts relationships between entities.'',
     '''',
     ''Your task is to identify explicit relationships between the entities mentioned in the text.'',
     '''',
     ''Guidelines:'',
     ''1. Only extract relationships that are explicitly stated or strongly implied'',
     ''2. Focus on meaningful relationships that add value to understanding'',
     ''3. Use clear, descriptive relationship types'',
     ''4. Ensure both source and target entities are from the provided entity list'',
     ''5. Provide a brief summary of the relationship if additional context is available'']"

definition create_extract_message_prompt :: "extract_context \<Rightarrow> Message list" where
  "create_extract_message_prompt cx =
     (let user_content =
        [10] @ lit ''<PREVIOUS MESSAGES>'' @ [10] @
        py_join [10] (cx_previous_episodes cx) @ [10] @
        lit ''</PREVIOUS MESSAGES>'' @ [10, 10] @
        lit ''<CURRENT MESSAGE>'' @ [10] @
        cx_episode_content cx @ [10] @
        lit ''</CURRENT MESSAGE>'' @ [10, 10] @
        lit ''<ENTITY TYPES>'' @ [10] @
        py_repr_entity_types (cx_entity_types cx) @ [10] @
        lit ''</ENTITY TYPES>'' @ [10, 10] @
        cx_custom_prompt cx @ [10, 10] @
        lit ''Extract entities mentioned in the CURRENT MESSAGE only.''
      in [\<lparr>role = lit ''system'', content = extract_message_system_message\<rparr>,
          \<lparr>role = lit ''user'', content = user_content\<rparr>])"

definition create_extract_text_prompt :: "extract_context \<Rightarrow> Message list" where
  "create_extract_text_prompt cx =
     (let user_content =
        [10] @ lit ''<TEXT>'' @ [10] @
        cx_episode_content cx @ [10] @
        lit ''</TEXT>'' @ [10, 10] @
        lit ''<ENTITY TYPES>'' @ [10] @
        py_repr_entity_types (cx_entity_types cx) @ [10] @
        lit ''</ENTITY TYPES>'' @ [10, 10] @
        cx_custom_prompt cx @ [10, 10] @
        lit ''Extract all significant entities from the text.''
      in [\<lparr>role = lit ''system'', content = extract_text_system_message\<rparr>,
          \<lparr>role = lit ''user'', content = user_content\<rparr>])"

definition create_extract_json_prompt :: "extract_context \<Rightarrow> Message list" where
  "create_extract_json_prompt cx =
     (let user_content =
        [10] @ lit ''<JSON>'' @ [10] @
        cx_episode_content cx @ [10] @
        lit ''</JSON>'' @ [10, 10] @
        lit ''<ENTITY TYPES>'' @ [10] @
        py_repr_entity_types (cx_entity_types cx) @ [10] @
        lit ''</ENTITY TYPES>'' @ [10, 10] @
        cx_custom_prompt cx @ [10, 10] @
        lit ''Extract all significant entities from the JSON data.''
      in [\<lparr>role = lit ''system'', content = extract_json_system_message\<rparr>,
          \<lparr>role = lit ''user'', content = user_content\<rparr>])"

text \<open>The \<open>context\<close> dicts of \<open>_extract_nodes_reflexion\<close> and of \<open>extract_edges\<close>.\<close>

record reflexion_context =
  rx_episode_content :: pystr
  rx_previous_episodes :: "pystr list"
  rx_extracted_entities :: "pystr list"

record edges_context =
  gx_episode_content :: pystr
  gx_previous_episodes :: "pystr list"
  gx_node_names :: "pystr list"

definition create_reflexion_prompt :: "reflexion_context \<Rightarrow> Message list" where
  "create_reflexion_prompt cx =
     (let user_content =
        [10] @ lit ''<EPISODE CONTENT>'' @ [10] @
        rx_episode_content cx @ [10] @
        lit ''</EPISODE CONTENT>'' @ [10, 10] @
        lit ''<PREVIOUSLY EXTRACTED ENTITIES>'' @ [10] @
        py_repr_str_list (rx_extracted_entities cx) @ [10] @
        lit ''</PREVIOUSLY EXTRACTED ENTITIES>'' @ [10, 10] @
        lit ''<PREVIOUS EPISODES (for context)>'' @ [10] @
        py_join [10] (rx_previous_episodes cx) @ [10] @
        lit ''</PREVIOUS EPISODES>'' @ [10, 10] @
        lit ''Review the episode content and identify any important entities that were missed in the initial extraction.''
      in [\<lparr>role = lit ''system'', content = reflexion_system_message\<rparr>,
          \<lparr>role = lit ''user'', content = user_content\<rparr>])"

definition create_extract_edges_prompt :: "edges_context \<Rightarrow> Message list" where
  "create_extract_edges_prompt cx =
     (let user_content =
        [10] @ lit ''<EPISODE CONTENT>'' @ [10] @
        gx_episode_content cx @ [10] @
        lit ''</EPISODE CONTENT>'' @ [10, 10] @
        lit ''<ENTITIES>'' @ [10] @
        py_repr_str_list (gx_node_names cx) @ [10] @
        lit ''</ENTITIES>'' @ [10, 10] @
        lit ''<PREVIOUS EPISODES (for context)>'' @ [10] @
        py_join [10] (gx_previous_episodes cx) @ [10] @
        lit ''</PREVIOUS EPISODES>'' @ [10, 10] @
        lit ''Extract relationships between the entities that are mentioned in the episode content.''
      in [\<lparr>role = lit ''system'', content = extract_edges_system_message\<rparr>,
          \<lparr>role = lit ''user'', content = user_content\<rparr>])"

subsection \<open>\<open>NumaExtractor.extract_nodes\<close>\<close>

text \<open>
  The local variables that the \<open>while\<close> loop of \<open>extract_nodes\<close> reads and assigns.
  \<open>extracted_entities\<close> has no value before the first pass of the loop; the loop always
  makes that pass (\<open>entities_missed\<close> starts \<open>True\<close> and \<open>reflexion_iterations\<close> starts 0),
  so the empty list that stands for it at the start is never read.
\<close>

record loop_state =
  st_llm_response :: llm_response
  st_extracted_entities :: "ExtractedEntity list"
  st_custom_prompt :: pystr
  st_entities_missed :: bool
  st_reflexion_iterations :: nat

text \<open>
  The \<open>if\<close>/\<open>elif\<close> chain on \<open>episode.source\<close>: a call of the backend for a message, a text
  or a JSON episode, each with the prompt built from \<open>context\<close>; for any other source
  no call is made and \<open>llm_response\<close> keeps its value.
\<close>

definition extract_entities_call ::
  "client \<Rightarrow> EpisodicNode \<Rightarrow> extract_context \<Rightarrow> request list \<Rightarrow> llm_response \<Rightarrow>
   request list \<times> (exn + llm_response)" where
  "extract_entities_call cl episode cx log llm_resp =
     (case ep_source episode of
        EpisodeType_message \<Rightarrow>
          generate_response cl log (create_extract_message_prompt cx, ExtractedEntities)
      | EpisodeType_text \<Rightarrow>
          generate_response cl log (create_extract_text_prompt cx, ExtractedEntities)
      | EpisodeType_json \<Rightarrow>
          generate_response cl log (create_extract_json_prompt cx, ExtractedEntities)
      | EpisodeType_conversation \<Rightarrow> (log, Inr llm_resp))"

text \<open>\<open>NumaExtractor._extract_nodes_reflexion\<close>.\<close>

definition extract_nodes_reflexion ::
  "client \<Rightarrow> EpisodicNode \<Rightarrow> EpisodicNode list \<Rightarrow> pystr list \<Rightarrow> request list \<Rightarrow>
   request list \<times> (exn + pystr list)" where
  "extract_nodes_reflexion cl episode previous_episodes node_names log =
     (let cx = \<lparr>rx_episode_content = ep_content episode,
                 rx_previous_episodes = map ep_content previous_episodes,
                 rx_extracted_entities = node_names\<rparr>
      in case generate_response cl log (create_reflexion_prompt cx, MissedEntities) of
           (log', Inl e) \<Rightarrow> (log', Inl e)
         | (log', Inr llm_resp) \<Rightarrow> (log', Inr (get_or_empty (missed_entities llm_resp))))"

text \<open>
  The \<open>while\<close> loop. \<open>cx\<close> is the \<open>context\<close> dict, built once before the loop; the loop
  assigns the local variable \<open>custom_prompt\<close> and never stores into \<open>context\<close>. An
  exception of a backend call leaves the loop and the function.
\<close>

function extract_nodes_loop ::
  "client \<Rightarrow> EpisodicNode \<Rightarrow> EpisodicNode list \<Rightarrow> extract_context \<Rightarrow> request list \<Rightarrow>
   loop_state \<Rightarrow> request list \<times> (exn + loop_state)" where
  "extract_nodes_loop cl episode previous_episodes cx log st =
     (if st_entities_missed st \<and> st_reflexion_iterations st \<le> MAX_REFLEXION_ITERATIONS then
        (case extract_entities_call cl episode cx log (st_llm_response st) of
           (log1, Inl e) \<Rightarrow> (log1, Inl e)
         | (log1, Inr llm_resp) \<Rightarrow>
             (let extracted = get_or_empty (extracted_entities llm_resp);
                  iterations = st_reflexion_iterations st + 1
              in if iterations < MAX_REFLEXION_ITERATIONS then
                   (case extract_nodes_reflexion cl episode previous_episodes
                           (map ee_name extracted) log1 of
                      (log2, Inl e) \<Rightarrow> (log2, Inl e)
                    | (log2, Inr missing_entities) \<Rightarrow>
                        extract_nodes_loop cl episode previous_episodes cx log2
                          \<lparr>st_llm_response = llm_resp,
                           st_extracted_entities = extracted,
                           st_custom_prompt =
                             lit ''Make sure that the following entities are extracted: '' @
                             concat (map (\<lambda>entity. [10] @ entity @ lit '','') missing_entities),
                           st_entities_missed = (length missing_entities \<noteq> 0),
                           st_reflexion_iterations = iterations\<rparr>)
                 else
                   extract_nodes_loop cl episode previous_episodes cx log1
                     (st\<lparr>st_llm_response := llm_resp,
                         st_extracted_entities := extracted,
                         st_reflexion_iterations := iterations\<rparr>)))
      else (log, Inr st))"
  by pat_completeness auto
termination
  by (relation "measure (\<lambda>(cl, episode, previous_episodes, cx, log, st).
        Suc MAX_REFLEXION_ITERATIONS - st_reflexion_iterations st)") auto

declare extract_nodes_loop.simps [simp del]

text \<open>
  The conversion of the surviving candidates into \<open>EntityNode\<close> objects: the \<open>for\<close> loop
  that appends to \<open>extracted_nodes\<close>. The labels are \<open>list({'Entity', str(entity_type_name)})\<close>,
  a set of one or two strings whose order Python does not fix; the list here has \<open>Entity\<close>
  first.
\<close>

definition new_entity_node ::
  "EpisodicNode \<Rightarrow> entity_type_context list \<Rightarrow> ExtractedEntity \<Rightarrow> nat \<Rightarrow> EntityNode" where
  "new_entity_node episode entity_types_cx extracted_entity n =
     (let type_name =
            (if 0 \<le> ee_entity_type_id extracted_entity \<and>
                ee_entity_type_id extracted_entity < int (length entity_types_cx)
             then entity_type_name (entity_types_cx ! nat (ee_entity_type_id extracted_entity))
             else lit ''Entity'')
      in \<lparr>en_uuid = ep_group_id episode @ lit ''-'' @ str_nat n,
          en_name = ee_name extracted_entity,
          en_labels = remdups [lit ''Entity'', type_name],
          en_summary = (case ee_summary extracted_entity of None \<Rightarrow> [] | Some s \<Rightarrow> s),
          en_group_id = ep_group_id episode\<rparr>)"

fun entity_nodes_loop ::
  "EpisodicNode \<Rightarrow> entity_type_context list \<Rightarrow> ExtractedEntity list \<Rightarrow> EntityNode list \<Rightarrow>
   EntityNode list" where
  "entity_nodes_loop episode entity_types_cx [] extracted_nodes = extracted_nodes"
| "entity_nodes_loop episode entity_types_cx (extracted_entity # rest) extracted_nodes =
     entity_nodes_loop episode entity_types_cx rest
       (extracted_nodes @
        [new_entity_node episode entity_types_cx extracted_entity (length extracted_nodes)])"

definition initial_extract_context ::
  "EpisodicNode \<Rightarrow> EpisodicNode list \<Rightarrow> entity_types_arg \<Rightarrow> extract_context" where
  "initial_extract_context episode previous_episodes entity_types =
     \<lparr>cx_episode_content = ep_content episode,
      cx_episode_timestamp = ep_valid_at episode,
      cx_previous_episodes = map ep_content previous_episodes,
      cx_custom_prompt = [],
      cx_entity_types = entity_types_context entity_types,
      cx_source_description = ep_source_description episode\<rparr>"

definition initial_loop_state :: loop_state where
  "initial_loop_state =
     \<lparr>st_llm_response = empty_response,
      st_extracted_entities = [],
      st_custom_prompt = [],
      st_entities_missed = True,
      st_reflexion_iterations = 0\<rparr>"

definition extract_nodes ::
  "client \<Rightarrow> EpisodicNode \<Rightarrow> EpisodicNode list \<Rightarrow> entity_types_arg \<Rightarrow> request list \<Rightarrow>
   request list \<times> (exn + EntityNode list)" where
  "extract_nodes cl episode previous_episodes entity_types log =
     (let cx = initial_extract_context episode previous_episodes entity_types
      in case extract_nodes_loop cl episode previous_episodes cx log initial_loop_state of
           (log', Inl e) \<Rightarrow> (log', Inl e)
         | (log', Inr st) \<Rightarrow>
             (let filtered_extracted_entities =
                    filter (\<lambda>entity. py_strip (ee_name entity) \<noteq> []) (st_extracted_entities st)
              in (log', Inr (entity_nodes_loop episode (cx_entity_types cx)
                               filtered_extracted_entities []))))"

subsection \<open>\<open>NumaExtractor.extract_edges\<close>\<close>

text \<open>
  \<open>node_name_to_uuid = {node.name: node.uuid for node in nodes}\<close>: a later node of the
  same name replaces an earlier one.
\<close>

definition node_name_to_uuid :: "EntityNode list \<Rightarrow> (pystr \<rightharpoonup> pystr)" where
  "node_name_to_uuid nodes = foldl (\<lambda>m node. m(en_name node \<mapsto> en_uuid node)) Map.empty nodes"

text \<open>
  The \<open>for\<close> loop over the extracted edges. The test
  \<open>source_uuid and target_uuid and source_uuid != target_uuid\<close> is false when a lookup gave
  \<open>None\<close> and also when it gave the empty string.
\<close>

fun edge_nodes_loop ::
  "EpisodicNode \<Rightarrow> (pystr \<rightharpoonup> pystr) \<Rightarrow> ExtractedEdge list \<Rightarrow> EdgeNode list \<Rightarrow> EdgeNode list"
  where
  "edge_nodes_loop episode name_to_uuid [] edge_nodes = edge_nodes"
| "edge_nodes_loop episode name_to_uuid (extracted_edge # rest) edge_nodes =
     (case (name_to_uuid (xe_source_name extracted_edge),
            name_to_uuid (xe_target_name extracted_edge)) of
        (Some source_uuid, Some target_uuid) \<Rightarrow>
          if source_uuid \<noteq> [] \<and> target_uuid \<noteq> [] \<and> source_uuid \<noteq> target_uuid then
            edge_nodes_loop episode name_to_uuid rest
              (edge_nodes @
               [\<lparr>ed_uuid = ep_group_id episode @ lit ''-edge-'' @ str_nat (length edge_nodes),
                 ed_source_node_uuid = source_uuid,
                 ed_target_node_uuid = target_uuid,
                 ed_relation_type = xe_relation_type extracted_edge,
                 ed_summary = (case xe_summary extracted_edge of None \<Rightarrow> [] | Some s \<Rightarrow> s),
                 ed_group_id = ep_group_id episode\<rparr>])
          else edge_nodes_loop episode name_to_uuid rest edge_nodes
      | _ \<Rightarrow> edge_nodes_loop episode name_to_uuid rest edge_nodes)"

definition extract_edges ::
  "client \<Rightarrow> EntityNode list \<Rightarrow> EpisodicNode \<Rightarrow> EpisodicNode list \<Rightarrow> request list \<Rightarrow>
   request list \<times> (exn + EdgeNode list)" where
  "extract_edges cl nodes episode previous_episodes log =
     (if length nodes < 2 then (log, Inr [])
      else
        (let cx = \<lparr>gx_episode_content = ep_content episode,
                    gx_previous_episodes = map ep_content previous_episodes,
                    gx_node_names = map en_name nodes\<rparr>
         in case generate_response cl log (create_extract_edges_prompt cx, ExtractedEdges) of
              (log', Inl e) \<Rightarrow> (log', Inl e)
            | (log', Inr llm_resp) \<Rightarrow>
                (log', Inr (edge_nodes_loop episode (node_name_to_uuid nodes)
                              (get_or_empty (extracted_edges llm_resp)) []))))"

section \<open>\<open>InHouseKnowledgeExtractor.extract_edges\<close> (knowledge_service.py)\<close>

text \<open>
  The extractor of the knowledge service asks its client with one user message and gives
  every edge a fresh \<open>uuid.uuid4()\<close>: \<open>uuid4 k\<close> is the \<open>k\<close>-th identifier drawn by the call,
  counted from 0. Its test is \<open>source_name in node_map and target_name in node_map\<close>, where
  \<open>node_map = {node.name: node for node in nodes}\<close>.
\<close>

definition node_map :: "EntityNode list \<Rightarrow> (pystr \<rightharpoonup> EntityNode)" where
  "node_map nodes = foldl (\<lambda>m node. m(en_name node \<mapsto> node)) Map.empty nodes"

fun inhouse_edges_loop ::
  "(nat \<Rightarrow> pystr) \<Rightarrow> EpisodicNode \<Rightarrow> (pystr \<rightharpoonup> EntityNode) \<Rightarrow> ExtractedEdge list \<Rightarrow>
   EdgeNode list \<Rightarrow> EdgeNode list" where
  "inhouse_edges_loop uuid4 episode nmap [] edges = edges"
| "inhouse_edges_loop uuid4 episode nmap (edge_data # rest) edges =
     (case (nmap (xe_source_name edge_data), nmap (xe_target_name edge_data)) of
        (Some source_node, Some target_node) \<Rightarrow>
          inhouse_edges_loop uuid4 episode nmap rest
            (edges @
             [\<lparr>ed_uuid = uuid4 (length edges),
               ed_source_node_uuid = en_uuid source_node,
               ed_target_node_uuid = en_uuid target_node,
               ed_relation_type = xe_relation_type edge_data,
               ed_summary = (case xe_summary edge_data of None \<Rightarrow> [] | Some s \<Rightarrow> s),
               ed_group_id = ep_group_id episode\<rparr>])
      | _ \<Rightarrow> inhouse_edges_loop uuid4 episode nmap rest edges)"

definition inhouse_extract_edges ::
  "(nat \<Rightarrow> pystr) \<Rightarrow> client \<Rightarrow> EntityNode list \<Rightarrow> EpisodicNode \<Rightarrow> EpisodicNode list \<Rightarrow>
   request list \<Rightarrow> request list \<times> (exn + EdgeNode list)" where
  "inhouse_extract_edges uuid4 cl nodes episode previous_episodes log =
     (if length nodes < 2 then (log, Inr [])
      else
        (let context_text =
               lit ''Episode: '' @ ep_content episode @ [10] @
               lit ''Entities: '' @ py_join (lit '', '') (map en_name nodes) @ [10];
             messages = [\<lparr>role = lit ''user'', content = context_text\<rparr>]
         in case generate_response cl log (messages, ExtractedEdges) of
              (log', Inl e) \<Rightarrow> (log', Inl e)
            | (log', Inr result) \<Rightarrow>
                (log', Inr (inhouse_edges_loop uuid4 episode (node_map nodes)
                              (get_or_empty (extracted_edges result)) []))))"

section \<open>Example inputs\<close>

text \<open>
  A message episode, and a backend that finds one entity on every extraction, reports one
  missed entity on every reflexion and finds no edge.
\<close>

definition example_episode :: EpisodicNode where
  "example_episode =
     \<lparr>ep_uuid = lit ''episode-1'',
      ep_group_id = lit ''g'',
      ep_source = EpisodeType_message,
      ep_content = lit ''Alice met Bob.'',
      ep_source_description = None,
      ep_valid_at = lit ''2024-01-01T00:00:00''\<rparr>"

definition always_missing_client :: client where
  "always_missing_client log req =
     (case snd req of
        ExtractedEntities \<Rightarrow>
          Inr (empty_response\<lparr>extracted_entities :=
                 Some [\<lparr>ee_name = lit ''Alice'', ee_entity_type_id = 0, ee_summary = None\<rparr>]\<rparr>)
      | MissedEntities \<Rightarrow> Inr (empty_response\<lparr>missed_entities := Some [lit ''Zed'']\<rparr>)
      | ExtractedEdges \<Rightarrow> Inr (empty_response\<lparr>extracted_edges := Some []\<rparr>)
      | DuplicateEntities \<Rightarrow> Inr empty_response)"

text \<open>
  The knowledge service on the episode \<open>See (alice). Alice manages Alice.\<close>: the four
  nodes that its entity patterns give, and the two relationships that its client finds in
  the text \<open>Episode: See (alice). Alice manages Alice.\<close> followed by the line of entity
  names (the sentence \<open>Alice manages Alice\<close>, and the line of names, whose first two
  capitalised words are \<open>Entities:\<close> and \<open>Episode,\<close>).
\<close>

definition self_loop_episode :: EpisodicNode where
  "self_loop_episode =
     \<lparr>ep_uuid = lit ''episode-2'',
      ep_group_id = lit ''default'',
      ep_source = EpisodeType_text,
      ep_content = lit ''See (alice). Alice manages Alice.'',
      ep_source_description = None,
      ep_valid_at = lit ''2024-01-01T00:00:00''\<rparr>"

definition self_loop_nodes :: "EntityNode list" where
  "self_loop_nodes =
     map (\<lambda>(u, n). \<lparr>en_uuid = lit u, en_name = lit n, en_labels = [lit ''Entity''],
                     en_summary = [], en_group_id = lit ''default''\<rparr>)
       [(''uuid-a'', ''Episode''), (''uuid-b'', ''See''), (''uuid-c'', ''Alice''),
        (''uuid-d'', ''Alice Manages Alice'')]"

definition self_loop_client :: client where
  "self_loop_client log req =
     (case snd req of
        ExtractedEdges \<Rightarrow>
          Inr (empty_response\<lparr>extracted_edges := Some
            [\<lparr>xe_source_name = lit ''Alice'', xe_target_name = lit ''Alice'',
              xe_relation_type = lit ''manages'',
              xe_summary = Some (lit ''Alice manages Alice'')\<rparr>,
             \<lparr>xe_source_name = lit ''Entities:'', xe_target_name = lit ''Episode,'',
              xe_relation_type = lit ''manages'',
              xe_summary = Some (lit ''Entities: Episode, See, Alice, Alice Manages Alice'')\<rparr>]\<rparr>)
      | _ \<Rightarrow> Inr empty_response)"

definition example_uuid4 :: "nat \<Rightarrow> pystr" where
  "example_uuid4 k = lit ''uuid-edge-'' @ str_nat k"

section \<open>The extraction service (extraction_service.py)\<close>

text \<open>
  The dataclasses of the service. The nodes and edges of an \<open>ExtractionResponse\<close> are the
  objects that the extractor returned, so the records of the knowledge models stand for
  them.
\<close>

record ServiceMessage =
  sm_uuid :: pystr
  sm_role :: pystr
  sm_content :: pystr
  sm_role_type :: "pystr option"

record EpisodeData =
  epd_uuid :: pystr
  epd_content :: pystr
  epd_timestamp :: pystr
  epd_source :: pystr
  epd_group_id :: pystr

record EntityType =
  et_id :: int
  et_name :: pystr
  et_description :: pystr

record ExtractionRequest =
  rq_group_id :: pystr
  rq_messages :: "ServiceMessage list"
  rq_previous_episodes :: "EpisodeData list option"
  rq_entity_types :: "EntityType list option"
  rq_use_numa :: "bool option"

record ExtractionResponse =
  resp_success :: bool
  resp_extracted_nodes :: "EntityNode list"
  resp_extracted_edges :: "EdgeNode list"
  resp_error :: "pystr option"

subsection \<open>\<open>_extract_with_numa\<close>\<close>

text \<open>
  What \<open>_extract_with_numa\<close> takes from outside the program: the \<open>uuid.uuid4()\<close> drawn for
  the episode, the text of \<open>datetime.now()\<close>, \<open>datetime.fromisoformat\<close> (which raises
  \<open>ValueError\<close> on a string it cannot read; a time stamp is kept as the text that
  \<open>isoformat()\<close> gives back), and \<open>str\<close> of the local class that \<open>_convert_entity_types\<close>
  creates for each entity type.
\<close>

record py_env =
  env_uuid4 :: pystr
  env_now :: pystr
  env_fromisoformat :: "pystr \<Rightarrow> exn + pystr"
  env_local_entity_type_str :: pystr

text \<open>
  \<open>_convert_to_episode\<close>: every message becomes \<open>f"{role_prefix} {msg.content}".strip()\<close>,
  and the parts are joined with newlines.
\<close>

definition convert_to_episode :: "py_env \<Rightarrow> ExtractionRequest \<Rightarrow> EpisodicNode" where
  "convert_to_episode env request =
     (let content_parts =
            map (\<lambda>msg.
                   let role_prefix =
                         (if sm_role msg \<noteq> [] then lit ''['' @ sm_role msg @ lit '']'' else [])
                   in py_strip (role_prefix @ lit '' '' @ sm_content msg))
                (rq_messages request)
      in \<lparr>ep_uuid = env_uuid4 env,
          ep_group_id = rq_group_id request,
          ep_source = EpisodeType_message,
          ep_content = py_join [10] content_parts,
          ep_source_description = Some (lit ''DMV Test Conversation''),
          ep_valid_at = env_now env\<rparr>)"

text \<open>
  \<open>_convert_previous_episodes\<close>: the loop stops at the first time stamp that
  \<open>fromisoformat\<close> rejects, with its exception.
\<close>

fun convert_previous_episodes :: "py_env \<Rightarrow> EpisodeData list \<Rightarrow> exn + EpisodicNode list" where
  "convert_previous_episodes env [] = Inr []"
| "convert_previous_episodes env (ep # rest) =
     (case env_fromisoformat env (epd_timestamp ep) of
        Inl e \<Rightarrow> Inl e
      | Inr valid_at \<Rightarrow>
          (case convert_previous_episodes env rest of
             Inl e \<Rightarrow> Inl e
           | Inr converted \<Rightarrow>
               Inr (\<lparr>ep_uuid = epd_uuid ep,
                      ep_group_id = epd_group_id ep,
                      ep_source = EpisodeType_message,
                      ep_content = epd_content ep,
                      ep_source_description = Some (epd_source ep),
                      ep_valid_at = valid_at\<rparr> # converted)))"

text \<open>
  \<open>_convert_entity_types\<close> returns a list of classes, one for each entity type;
  \<open>extract_nodes\<close> treats a list by taking \<open>str(et)\<close> of each element.
\<close>

definition convert_entity_types :: "py_env \<Rightarrow> EntityType list \<Rightarrow> entity_types_arg" where
  "convert_entity_types env entity_types =
     EntityTypesList (map (\<lambda>et. env_local_entity_type_str env) entity_types)"

definition extract_with_numa ::
  "py_env \<Rightarrow> client \<Rightarrow> ExtractionRequest \<Rightarrow> exn + ExtractionResponse" where
  "extract_with_numa env numa request =
     (let episode = convert_to_episode env request
      in case convert_previous_episodes env (get_or_empty (rq_previous_episodes request)) of
           Inl e \<Rightarrow> Inl e
         | Inr previous_episodes \<Rightarrow>
             (let entity_types =
                    convert_entity_types env (get_or_empty (rq_entity_types request))
              in case extract_nodes numa episode previous_episodes entity_types [] of
                   (log1, Inl e) \<Rightarrow> Inl e
                 | (log1, Inr nodes) \<Rightarrow>
                     (case extract_edges numa nodes episode previous_episodes log1 of
                        (log2, Inl e) \<Rightarrow> Inl e
                      | (log2, Inr edges) \<Rightarrow>
                          Inr \<lparr>resp_success = True,
                               resp_extracted_nodes = nodes,
                               resp_extracted_edges = edges,
                               resp_error = None\<rparr>)))"

subsection \<open>\<open>ExtractionService.extract_knowledge\<close>\<close>

text \<open>
  The two clients of the service. \<open>None\<close> is the Python \<open>None\<close>, a client that failed to
  initialize. A client that is present is given by what the extraction with it does:
  for \<open>llm_client\<close> the outcome of \<open>self._extract_with_llm(request)\<close>, whose extractor class
  \<open>KnowledgeExtractor\<close> is imported from a module that is not among the sources, and for
  \<open>numa_client\<close> the outcome of \<open>self._extract_with_numa(request)\<close>, for which
  \<open>extract_with_numa\<close> above can be put.
\<close>

record ExtractionService =
  llm_client :: "(ExtractionRequest \<Rightarrow> exn + ExtractionResponse) option"
  numa_client :: "(ExtractionRequest \<Rightarrow> exn + ExtractionResponse) option"

text \<open>
  The first \<open>if\<close> of \<open>extract_knowledge\<close> with its inner \<open>try\<close>: the result that is
  returned from there, or \<open>None\<close> when the branch is not taken or the extraction with the
  language model raised (the \<open>except Exception\<close> clause logs a warning and goes on).
\<close>

definition llm_attempt :: "ExtractionService \<Rightarrow> ExtractionRequest \<Rightarrow> ExtractionResponse option"
  where
  "llm_attempt svc request =
     (let use_numa = (rq_use_numa request = Some True \<or> llm_client svc = None)
      in if \<not> use_numa then
           (case llm_client svc of
              None \<Rightarrow> None
            | Some extract_with_llm \<Rightarrow>
                (case extract_with_llm request of
                   Inr result \<Rightarrow> Some result
                 | Inl e \<Rightarrow> None))
         else None)"

text \<open>The body of the outer \<open>try\<close>.\<close>

definition extract_knowledge_body ::
  "ExtractionService \<Rightarrow> ExtractionRequest \<Rightarrow> exn + ExtractionResponse" where
  "extract_knowledge_body svc request =
     (case llm_attempt svc request of
        Some result \<Rightarrow> Inr result
      | None \<Rightarrow>
          (case numa_client svc of
             Some extract_with_numa_client \<Rightarrow> extract_with_numa_client request
           | None \<Rightarrow> Inl (RuntimeError (lit ''No extraction clients available''))))"

text \<open>\<open>extract_knowledge\<close>: the outer \<open>except Exception as e\<close> builds the failure response.\<close>

definition extract_knowledge :: "ExtractionService \<Rightarrow> ExtractionRequest \<Rightarrow> ExtractionResponse"
  where
  "extract_knowledge svc request =
     (case extract_knowledge_body svc request of
        Inr result \<Rightarrow> result
      | Inl e \<Rightarrow>
          \<lparr>resp_success = False,
           resp_extracted_nodes = [],
           resp_extracted_edges = [],
           resp_error = Some (exn_str e)\<rparr>)"

subsection \<open>Example inputs of the service\<close>

definition example_env :: py_env where
  "example_env =
     \<lparr>env_uuid4 = lit ''episode-3'',
      env_now = lit ''2024-01-01T00:00:00'',
      env_fromisoformat = (\<lambda>s. Inr s),
      env_local_entity_type_str = lit ''LocalEntityType''\<rparr>"

definition example_request :: ExtractionRequest where
  "example_request =
     \<lparr>rq_group_id = lit ''g'',
      rq_messages = [\<lparr>sm_uuid = lit ''m1'', sm_role = lit ''user'',
                      sm_content = lit ''Alice met Bob.'', sm_role_type = None\<rparr>],
      rq_previous_episodes = None,
      rq_entity_types = None,
      rq_use_numa = Some False\<rparr>"

text \<open>
  A remote extraction that has used up its retries on HTTP 503, a local extraction that
  succeeds, and a local extraction that raises an exception whose \<open>str\<close> is empty (as
  \<open>str(MemoryError())\<close> is).
\<close>

definition llm_unavailable :: "ExtractionRequest \<Rightarrow> exn + ExtractionResponse" where
  "llm_unavailable request = Inl (HTTPStatusError 503 (lit ''Service Unavailable''))"

definition numa_raises_bare :: "ExtractionRequest \<Rightarrow> exn + ExtractionResponse" where
  "numa_raises_bare request = Inl (OtherException [])"

section \<open>The local rule-based extractor (numa_module.py)\<close>

subsection \<open>Character classes and case\<close>

definition is_upper_ascii :: "nat \<Rightarrow> bool" where
  "is_upper_ascii c \<longleftrightarrow> 65 \<le> c \<and> c \<le> 90"

definition is_lower_ascii :: "nat \<Rightarrow> bool" where
  "is_lower_ascii c \<longleftrightarrow> 97 \<le> c \<and> c \<le> 122"

definition is_digit_ascii :: "nat \<Rightarrow> bool" where
  "is_digit_ascii c \<longleftrightarrow> 48 \<le> c \<and> c \<le> 57"

text \<open>
  \<open>\w\<close> in a \<open>str\<close> pattern: a letter or digit of Unicode, or the underscore. For the code
  points above ASCII the table of Unicode's alphanumeric characters is a parameter,
  \<open>uni_alnum\<close>.
\<close>

definition is_word :: "(nat \<Rightarrow> bool) \<Rightarrow> nat \<Rightarrow> bool" where
  "is_word uni_alnum c =
     (if c < 128 then is_upper_ascii c \<or> is_lower_ascii c \<or> is_digit_ascii c \<or> c = 95
      else uni_alnum c)"

definition ascii_lower :: "nat \<Rightarrow> nat" where
  "ascii_lower c = (if is_upper_ascii c then c + 32 else c)"

text \<open>
  \<open>s.lower()\<close>. On a string of ASCII and white-space code points it turns \<open>A\<close> to \<open>Z\<close>
  into \<open>a\<close> to \<open>z\<close> and keeps every other code point. On a string that holds other code
  points it follows Unicode's case mapping, which is a parameter, \<open>uni_lower\<close>.
\<close>

definition py_lower :: "(pystr \<Rightarrow> pystr) \<Rightarrow> pystr \<Rightarrow> pystr" where
  "py_lower uni_lower s =
     (if list_all (\<lambda>c. c < 128 \<or> is_space c) s then map ascii_lower s else uni_lower s)"

subsection \<open>The proper-noun pattern\<close>

text \<open>
  \<open>re.findall(r'\b[A-Z][a-z]+(?:\s+[A-Z][a-z]+)*\b', input_text)\<close>, without flags.
  A word is an upper-case ASCII letter followed by lower-case ASCII letters; \<open>take_word\<close>
  takes the longest run of lower-case letters. A shorter run cannot be part of a match:
  the code point after it is a lower-case letter, where the pattern goes on with \<open>\s\<close>, or
  with \<open>\b\<close> between two word characters. In the same way every \<open>\s+\<close> of a match is a
  longest run of white space, since the pattern goes on with \<open>[A-Z]\<close>.
\<close>

fun take_word :: "pystr \<Rightarrow> (pystr \<times> pystr) option" where
  "take_word [] = None"
| "take_word (c # cs) =
     (if is_upper_ascii c \<and> takeWhile is_lower_ascii cs \<noteq> []
      then Some (c # takeWhile is_lower_ascii cs, dropWhile is_lower_ascii cs)
      else None)"

text \<open>
  \<open>\b\<close> after a word: the end of the string, or a code point that is not a word
  character.
\<close>

definition end_boundary :: "(nat \<Rightarrow> bool) \<Rightarrow> pystr \<Rightarrow> bool" where
  "end_boundary uni_alnum r = (case r of [] \<Rightarrow> True | c # cs \<Rightarrow> \<not> is_word uni_alnum c)"

lemma take_word_shorter:
  "take_word s = Some (w, r) \<Longrightarrow> length r < length s"
  by (cases s) (auto split: if_splits intro: le_imp_less_Suc length_dropWhile_le)

text \<open>
  The rest of a match after a word, \<open>(?:\s+[A-Z][a-z]+)*\b\<close>, on the remainder \<open>r\<close>. The
  star is greedy: one more group is tried first, and only when the match cannot be
  completed after it does the match end here, if \<open>\b\<close> holds here.
\<close>

function match_tail :: "(nat \<Rightarrow> bool) \<Rightarrow> pystr \<Rightarrow> (pystr \<times> pystr) option" where
  "match_tail uni_alnum r =
     (let ws = takeWhile is_space r;
          here = (if end_boundary uni_alnum r then Some ([], r) else None)
      in if ws = [] then here
         else
           (case take_word (dropWhile is_space r) of
              None \<Rightarrow> here
            | Some (w, r') \<Rightarrow>
                (case match_tail uni_alnum r' of
                   None \<Rightarrow> here
                 | Some (m, r'') \<Rightarrow> Some (ws @ w @ m, r''))))"
  by pat_completeness auto
termination
proof (relation "measure (\<lambda>(uni_alnum, r). length r)")
  show "wf (measure (\<lambda>(uni_alnum :: nat \<Rightarrow> bool, r :: pystr). length r))"
    by simp
next
  fix uni_alnum :: "nat \<Rightarrow> bool" and r ws :: pystr and here x2 w r'
  assume "take_word (dropWhile is_space r) = Some x2" and "(w, r') = x2"
  then have "length r' < length (dropWhile is_space r)"
    using take_word_shorter [of "dropWhile is_space r" w r'] by simp
  also have "\<dots> \<le> length r"
    by (rule length_dropWhile_le)
  finally show "((uni_alnum, r'), (uni_alnum, r)) \<in> measure (\<lambda>(uni_alnum, r). length r)"
    by simp
qed

declare match_tail.simps [simp del]

text \<open>A match that starts at the head of \<open>s\<close>, with the rest of the string.\<close>

definition match_at :: "(nat \<Rightarrow> bool) \<Rightarrow> pystr \<Rightarrow> (pystr \<times> pystr) option" where
  "match_at uni_alnum s =
     (case take_word s of
        None \<Rightarrow> None
      | Some (w, r) \<Rightarrow>
          (case match_tail uni_alnum r of
             None \<Rightarrow> None
           | Some (m, r') \<Rightarrow> Some (w @ m, r')))"

lemma match_tail_shorter:
  "match_tail uni_alnum r = Some (m, r') \<Longrightarrow> length r' \<le> length r"
proof (induction uni_alnum r arbitrary: m r' rule: match_tail.induct)
  case (1 uni_alnum r)
  show ?case
  proof (cases "takeWhile is_space r = []")
    case True
    with "1.prems" show ?thesis
      by (subst (asm) match_tail.simps) (auto simp: Let_def split: if_splits)
  next
    case False
    show ?thesis
    proof (cases "take_word (dropWhile is_space r)")
      case None
      with False "1.prems" show ?thesis
        by (subst (asm) match_tail.simps) (auto simp: Let_def split: if_splits)
    next
      case (Some p)
      obtain w r1 where p: "p = (w, r1)" by (cases p)
      have r1: "length r1 < length r"
        using take_word_shorter [of "dropWhile is_space r" w r1] Some p
          length_dropWhile_le [of is_space r] by simp
      show ?thesis
      proof (cases "match_tail uni_alnum r1")
        case None
        with False Some p "1.prems" show ?thesis
          by (subst (asm) match_tail.simps) (auto simp: Let_def split: if_splits)
      next
        case inner: (Some q)
        obtain m1 r2 where q: "q = (m1, r2)" by (cases q)
        have "length r2 \<le> length r1"
          using "1.IH" [OF refl refl False Some p [symmetric]] inner q by simp
        moreover have "r' = r2"
          using False Some p inner q "1.prems"
          by (subst (asm) match_tail.simps) (simp add: Let_def)
        ultimately show ?thesis using r1 by simp
      qed
    qed
  qed
qed

lemma match_at_shorter:
  "match_at uni_alnum s = Some (m, r) \<Longrightarrow> length r < length s"
  by (auto simp: match_at_def split: option.splits prod.splits
      dest!: take_word_shorter match_tail_shorter)

text \<open>
  \<open>findall\<close>: the matches from left to right, without overlap. \<open>prev_word\<close> tells whether
  the code point before the current position is a word character (at the start of the
  text there is none). A match can start only at a \<open>\b\<close>, that is after a code point that
  is not a word character, since its first code point is one. After a match the scan goes
  on behind it, where the code point before is the lower-case letter that ends the match.
\<close>

function findall_proper_nouns :: "(nat \<Rightarrow> bool) \<Rightarrow> bool \<Rightarrow> pystr \<Rightarrow> pystr list" where
  "findall_proper_nouns uni_alnum prev_word [] = []"
| "findall_proper_nouns uni_alnum prev_word (c # cs) =
     (case (if prev_word then None else match_at uni_alnum (c # cs)) of
        Some (m, r) \<Rightarrow> m # findall_proper_nouns uni_alnum True r
      | None \<Rightarrow> findall_proper_nouns uni_alnum (is_word uni_alnum c) cs)"
  by pat_completeness auto
termination
proof (relation "measure (\<lambda>(uni_alnum, prev_word, s). length s)")
  show "wf (measure (\<lambda>(uni_alnum :: nat \<Rightarrow> bool, prev_word :: bool, s :: pystr). length s))"
    by simp
next
  fix uni_alnum :: "nat \<Rightarrow> bool" and prev_word :: bool and c :: nat and cs :: pystr
  show "((uni_alnum, is_word uni_alnum c, cs), (uni_alnum, prev_word, c # cs))
      \<in> measure (\<lambda>(uni_alnum, prev_word, s). length s)"
    by simp
next
  fix uni_alnum :: "nat \<Rightarrow> bool" and prev_word :: bool and c :: nat and cs :: pystr
    and x2 :: "pystr \<times> pystr" and m r :: pystr
  assume "(if prev_word then None else match_at uni_alnum (c # cs)) = Some x2" and "(m, r) = x2"
  then have "match_at uni_alnum (c # cs) = Some (m, r)"
    by (simp split: if_splits)
  then show "((uni_alnum, True, r), (uni_alnum, prev_word, c # cs))
      \<in> measure (\<lambda>(uni_alnum, prev_word, s). length s)"
    using match_at_shorter by fastforce
qed

subsection \<open>The entity list of \<open>LocalExtractor._extract_from_prompt\<close>\<close>

definition stopwords :: "pystr set" where
  "stopwords = lit ` {''Extract'', ''Focus'', ''People'', ''Important'', ''Relationships'', ''Return'',
     ''The'', ''This'', ''That'', ''These'', ''Those'', ''He'', ''She'', ''It'', ''They'',
     ''Entity'', ''Entities'', ''Task'', ''Following'', ''Text'', ''Content''}"

text \<open>\<open>list(dict.fromkeys(entities))\<close>: the first occurrence of every string, in order.\<close>

fun fromkeys :: "pystr list \<Rightarrow> pystr list \<Rightarrow> pystr list" where
  "fromkeys keys [] = keys"
| "fromkeys keys (x # xs) = (if x \<in> set keys then fromkeys keys xs else fromkeys (keys @ [x]) xs)"

text \<open>
  The value under \<open>"entities"\<close> in the result of \<open>_extract_from_prompt\<close>, as a function of
  \<open>input_text\<close>, the part of the prompt that \<open>_extract_input_text_from_prompt\<close> selects.
  The relations of the result do not enter the entity list and are left out.
\<close>

definition extract_from_prompt_entities :: "(nat \<Rightarrow> bool) \<Rightarrow> pystr \<Rightarrow> pystr list" where
  "extract_from_prompt_entities uni_alnum input_text =
     (let proper_nouns = findall_proper_nouns uni_alnum False input_text;
          entities = filter (\<lambda>noun. noun \<notin> stopwords \<and> length noun > 1) proper_nouns;
          unique_entities = fromkeys [] entities
      in take 10 unique_entities)"

text \<open>
  The shape of a match of the proper-noun pattern, used in the proofs: white space, upper-case
  ASCII letters exactly at the start and after white space, and lower-case ASCII letters
  elsewhere. \<open>start\<close> tells whether the position is the start or follows white space.
\<close>

fun well_cased :: "bool \<Rightarrow> pystr \<Rightarrow> bool" where
  "well_cased start [] = True"
| "well_cased start (c # cs) =
     (if is_space c then well_cased True cs
      else if start then is_upper_ascii c \<and> well_cased False cs
      else is_lower_ascii c \<and> well_cased False cs)"

section \<open>The entity extraction of \<open>InHouseLLMClient\<close> (knowledge_service.py)\<close>

text \<open>
  \<open>re.sub(r'\s+', ' ', entity_name)\<close>: every run of white space becomes one space.
  \<open>in_run\<close> tells whether the code point before was white space.
\<close>

fun collapse_whitespace :: "bool \<Rightarrow> pystr \<Rightarrow> pystr" where
  "collapse_whitespace in_run [] = []"
| "collapse_whitespace in_run (c # cs) =
     (if is_space c then
        (if in_run then collapse_whitespace True cs else 32 # collapse_whitespace True cs)
      else c # collapse_whitespace False cs)"

text \<open>
  \<open>s.title()\<close>. A letter that follows a letter is put in lower case, any other letter in
  upper case, and the other code points are kept. As for \<open>py_lower\<close>, this is the method
  on strings of ASCII and white-space code points, and \<open>uni_title\<close> stands for it on the
  other strings.
\<close>

fun ascii_title :: "bool \<Rightarrow> pystr \<Rightarrow> pystr" where
  "ascii_title previous_is_cased [] = []"
| "ascii_title previous_is_cased (c # cs) =
     (if is_upper_ascii c \<or> is_lower_ascii c then
        (if previous_is_cased then ascii_lower c
         else if is_lower_ascii c then c - 32 else c) # ascii_title True cs
      else c # ascii_title False cs)"

definition py_title :: "(pystr \<Rightarrow> pystr) \<Rightarrow> pystr \<Rightarrow> pystr" where
  "py_title uni_title s =
     (if list_all (\<lambda>c. c < 128 \<or> is_space c) s then ascii_title False s else uni_title s)"

text \<open>
  \<open>re.split(r'[.!?]+', context)\<close>: the pieces between the runs of sentence marks, an
  empty piece included where the text starts or ends with a mark. \<open>current\<close> holds the
  piece being read, in reverse, and \<open>in_run\<close> tells whether the code point before was a
  mark.
\<close>

fun split_sentences :: "bool \<Rightarrow> pystr \<Rightarrow> pystr \<Rightarrow> pystr list" where
  "split_sentences in_run current [] = [rev current]"
| "split_sentences in_run current (c # cs) =
     (if c \<in> set (lit ''.!?'') then
        (if in_run then split_sentences True current cs
         else rev current # split_sentences True [] cs)
      else split_sentences False (c # current) cs)"

text \<open>The case mappings of Unicode that \<open>lower()\<close> and \<open>title()\<close> use beyond ASCII.\<close>

record unicode_case =
  uni_lower :: "pystr \<Rightarrow> pystr"
  uni_title :: "pystr \<Rightarrow> pystr"

text \<open>\<open>InHouseLLMClient._classify_entity\<close>.\<close>

definition classify_entity :: "unicode_case \<Rightarrow> pystr \<Rightarrow> pystr \<Rightarrow> int" where
  "classify_entity uc entity_name context_text =
     (let entity_lower = py_lower (uni_lower uc) entity_name
      in if list_ex (\<lambda>word. py_in (lit word) entity_lower)
              [''user'', ''person'', ''customer'', ''employee''] then 1
         else if list_ex (\<lambda>word. py_in (lit word) entity_lower)
              [''company'', ''organization'', ''corp'', ''inc''] then 2
         else if list_ex (\<lambda>word. py_in (lit word) entity_lower)
              [''system'', ''application'', ''software'', ''platform''] then 3
         else if py_in (lit ''@'') entity_name \<or> py_in (lit ''http'') entity_name then 4
         else 0)"

text \<open>\<open>InHouseLLMClient._generate_entity_summary\<close>.\<close>

definition generate_entity_summary :: "unicode_case \<Rightarrow> pystr \<Rightarrow> pystr \<Rightarrow> pystr" where
  "generate_entity_summary uc entity_name context_text =
     (let sentences = split_sentences False [] context_text;
          relevant_sentences =
            map py_strip
              (filter (\<lambda>sentence. py_in (py_lower (uni_lower uc) entity_name)
                                        (py_lower (uni_lower uc) sentence))
                 sentences)
      in case relevant_sentences of
           summary # rest \<Rightarrow>
             (if length summary > 200 then take 200 summary @ lit ''...'' else summary)
         | [] \<Rightarrow> lit ''Entity mentioned in the context: '' @ entity_name)"

text \<open>
  The body of the inner \<open>for\<close> loop of \<open>_extract_entities\<close>, for one match: the state is
  the list \<open>entities\<close> with the set \<open>seen_entities\<close>.
\<close>

definition extract_entities_step ::
  "unicode_case \<Rightarrow> pystr \<Rightarrow> ExtractedEntity list \<times> pystr set \<Rightarrow> pystr \<Rightarrow>
   ExtractedEntity list \<times> pystr set" where
  "extract_entities_step uc text_in state matched =
     (let (entities, seen_entities) = state;
          entity_name = py_strip matched;
          entity_name = collapse_whitespace False entity_name;
          entity_name = py_title (uni_title uc) entity_name
      in if length entity_name > 2 \<and> py_lower (uni_lower uc) entity_name \<notin> seen_entities then
           (entities @
              [\<lparr>ee_name = entity_name,
                ee_entity_type_id = classify_entity uc entity_name text_in,
                ee_summary = Some (generate_entity_summary uc entity_name text_in)\<rparr>],
            insert (py_lower (uni_lower uc) entity_name) seen_entities)
         else (entities, seen_entities))"

text \<open>
  \<open>InHouseLLMClient._extract_entities\<close>. The six patterns of \<open>entity_patterns\<close> are named
  by their positions; \<open>finditer i text\<close> gives the strings \<open>match.group()\<close> of
  \<open>re.finditer(entity_patterns[i], text, re.IGNORECASE)\<close> in order. The result is the list
  under \<open>"extracted_entities"\<close>.
\<close>

definition inhouse_extract_entities ::
  "(nat \<Rightarrow> pystr \<Rightarrow> pystr list) \<Rightarrow> unicode_case \<Rightarrow> pystr \<Rightarrow> ExtractedEntity list" where
  "inhouse_extract_entities finditer uc text_in =
     (let (entities, seen_entities) =
            foldl (\<lambda>state pattern.
                     foldl (extract_entities_step uc text_in) state (finditer pattern text_in))
                  ([], {}) [0..<6]
      in take 20 entities)"

text \<open>
  The invariant of the two loops of \<open>_extract_entities\<close>, used in the proofs: the names in
  \<open>entities\<close> differ pairwise after \<open>lower()\<close>, and \<open>seen_entities\<close> holds exactly their
  lower-case forms.
\<close>

definition case_distinct_inv :: "unicode_case \<Rightarrow> ExtractedEntity list \<times> pystr set \<Rightarrow> bool" where
  "case_distinct_inv uc state \<longleftrightarrow>
     distinct (map (py_lower (uni_lower uc)) (map ee_name (fst state))) \<and>
     snd state = set (map (py_lower (uni_lower uc)) (map ee_name (fst state)))"

section \<open>The fallback embedding (embedding_service.py)\<close>

text \<open>
  \<open>RealEmbeddingService._generate_mock_embeddings\<close> takes three things from outside the
  program. \<open>py_hash\<close> is the built-in \<open>hash\<close> on strings in the running process: CPython
  keys it with a value drawn when the process starts, unless \<open>PYTHONHASHSEED\<close> is set, so
  two processes have two such functions. \<open>randn seed n\<close> is the array that
  \<open>np.random.randn(n)\<close> gives after \<open>np.random.seed(seed)\<close>, and \<open>unit_norm\<close> is the
  division of an array by its \<open>np.linalg.norm\<close>. The floating-point numbers are left
  abstract, as the type \<open>'f\<close>.
\<close>

definition dimension :: nat where
  "dimension = 384"

definition mock_seed :: "(pystr \<Rightarrow> int) \<Rightarrow> pystr \<Rightarrow> nat" where
  "mock_seed py_hash text_in = nat (py_hash text_in mod 2 ^ 31)"

definition generate_mock_embeddings ::
  "(pystr \<Rightarrow> int) \<Rightarrow> (nat \<Rightarrow> nat \<Rightarrow> 'f list) \<Rightarrow> ('f list \<Rightarrow> 'f list) \<Rightarrow> pystr list \<Rightarrow>
   'f list list" where
  "generate_mock_embeddings py_hash randn unit_norm texts =
     map (\<lambda>text_in.
            let hash_val = mock_seed py_hash text_in;
                embedding = randn hash_val dimension;
                embedding = unit_norm embedding
            in embedding)
         texts"

text \<open>
  Two processes, given by the values of their keyed \<open>hash\<close> on the text \<open>hello\<close>. The
  values are those of CPython 3.11 on a 64-bit platform (SipHash-1-3) started with
  \<open>PYTHONHASHSEED=1\<close> and with \<open>PYTHONHASHSEED=2\<close>, two of the keys that a process started
  without \<open>PYTHONHASHSEED\<close> can draw.
\<close>

definition process_a_hash :: "pystr \<Rightarrow> int" where
  "process_a_hash text_in = (if text_in = lit ''hello'' then - 1712148659304476210 else 0)"

definition process_b_hash :: "pystr \<Rightarrow> int" where
  "process_b_hash text_in = (if text_in = lit ''hello'' then - 2276782357261739453 else 0)"

section \<open>Properties of the sanitization\<close>

lemma set_foldl_replace_char:
  "set (foldl replace_char s cs) = set s - set cs"
  by (induction cs arbitrary: s) (auto simp: replace_char_def)

text \<open>
  C9. For every input string, the sanitized string holds none of U+200B, U+200C, U+200D,
  U+FEFF, U+2060, and no code point below 32 other than newline (10), carriage return (13)
  and tab (9); this holds for the sanitizer of the remote client and for the one of the
  local client.
\<close>

theorem clean_input_strips_invisible_and_control:
  "(\<forall>c \<in> set (LLMClient_clean_input s).
      c \<notin> {0x200B, 0x200C, 0x200D, 0xFEFF, 0x2060} \<and> (c < 32 \<longrightarrow> c \<in> {10, 13, 9})) \<and>
   (\<forall>c \<in> set (NumaClient_clean_input s).
      c \<notin> {0x200B, 0x200C, 0x200D, 0xFEFF, 0x2060} \<and> (c < 32 \<longrightarrow> c \<in> {10, 13, 9}))"
proof -
  have zw: "set zero_width = {0x200B, 0x200C, 0x200D, 0xFEFF, 0x2060}"
    by (simp add: zero_width_def)
  have "set (LLMClient_clean_input s) \<subseteq>
          {c. c \<ge> 32 \<or> c \<in> {10, 13, 9}} - set zero_width"
    by (auto simp: LLMClient_clean_input_def Let_def set_foldl_replace_char)
  moreover have "set (NumaClient_clean_input s) \<subseteq>
          {c. c \<ge> 32 \<or> c \<in> {10, 13, 9}} - set zero_width"
    by (auto simp: NumaClient_clean_input_def Let_def set_foldl_replace_char)
  ultimately show ?thesis
    unfolding zw by fastforce
qed

theorem clean_input_strips_invisible_and_control_witness:
  "LLMClient_clean_input [72, 0x200B, 7, 10, 0xFEFF, 105] = [72, 10, 105] \<and>
   NumaClient_clean_input [72, 0x200B, 7, 10, 0xFEFF, 105] = [72, 10, 105] \<and>
   (10::nat) \<in> set (LLMClient_clean_input [72, 0x200B, 7, 10, 0xFEFF, 105]) \<and>
   (10::nat) \<notin> {0x200B, 0x200C, 0x200D, 0xFEFF, 0x2060} \<and> (10::nat) < 32 \<and>
   (10::nat) \<in> {10, 13, 9}"
  using clean_input_strips_invisible_and_control [of "[72, 0x200B, 7, 10, 0xFEFF, 105]"]
  by (simp add: LLMClient_clean_input_def NumaClient_clean_input_def utf8_ignore_def
      replace_char_def zero_width_def)

section \<open>Properties of the retry\<close>

lemma tenacity_retry_skip:
  assumes "\<forall>j. a \<le> j \<and> j < k \<longrightarrow> (\<exists>e. fn j = Inl e \<and> p e)" and "a \<le> k" and "k \<le> m"
  shows "tenacity_retry m p fn a = tenacity_retry m p fn k"
  using assms
proof (induction "k - a" arbitrary: a)
  case 0
  then show ?case by simp
next
  case (Suc d)
  then have "a < k" by simp
  with Suc.prems obtain e where e: "fn a = Inl e" "p e" by auto
  have "tenacity_retry m p fn a = tenacity_retry m p fn (Suc a)"
    using e \<open>a < k\<close> \<open>k \<le> m\<close> by (subst tenacity_retry.simps) simp
  also have "\<dots> = tenacity_retry m p fn k"
    using Suc.hyps Suc.prems \<open>a < k\<close> by (intro Suc.hyps(1)) auto
  finally show ?case .
qed

lemma tenacity_retry_bounds:
  "a \<le> m \<Longrightarrow> a \<le> fst (tenacity_retry m p fn a) \<and> fst (tenacity_retry m p fn a) \<le> m"
proof (induction "m - a" arbitrary: a)
  case 0
  then show ?case by (subst (1 2) tenacity_retry.simps) (auto split: sum.splits)
next
  case (Suc d)
  from Suc.hyps(1) [of "Suc a"] Suc.hyps(2) Suc.prems
  have "Suc a \<le> fst (tenacity_retry m p fn (Suc a)) \<and> fst (tenacity_retry m p fn (Suc a)) \<le> m"
    by auto
  then show ?case using Suc.prems
    by (subst (1 2) tenacity_retry.simps) (auto split: sum.splits)
qed

lemma generate_response_with_retry_body_id:
  "generate_response_with_retry_body outcome = outcome"
  by (auto simp: generate_response_with_retry_body_def split: sum.splits exn.splits)

text \<open>
  C4. The retried generate call makes at least one and at most 4 attempts. Attempts are
  repeated only after a retryable failure: when the first \<open>k - 1\<close> attempts fail with
  retryable errors and attempt \<open>k \<le> 4\<close> succeeds, its result is returned after exactly
  \<open>k\<close> attempts; when attempt \<open>k\<close> fails with an error that is not retryable, that error
  propagates after exactly \<open>k\<close> attempts, without a further attempt; and when the first
  three attempts fail with retryable errors and the fourth attempt fails, the fourth error
  is surfaced after 4 attempts and no result is returned. The retryable errors are the
  rate-limit error, the JSON decode error and an HTTP status error with a code from 500
  to 599.
\<close>

theorem retry_policy:
  fixes g :: "nat \<Rightarrow> exn + 'r"
  shows
  "(1 \<le> fst (generate_response_with_retry g) \<and> fst (generate_response_with_retry g) \<le> 4) \<and>
   (\<forall>k v. 1 \<le> k \<and> k \<le> 4 \<and>
       (\<forall>j. 1 \<le> j \<and> j < k \<longrightarrow> (\<exists>e. g j = Inl e \<and> is_server_or_retry_error e)) \<and>
       g k = Inr v \<longrightarrow> generate_response_with_retry g = (k, Inr v)) \<and>
   (\<forall>k e. 1 \<le> k \<and> k \<le> 4 \<and>
       (\<forall>j. 1 \<le> j \<and> j < k \<longrightarrow> (\<exists>e. g j = Inl e \<and> is_server_or_retry_error e)) \<and>
       g k = Inl e \<and> \<not> is_server_or_retry_error e \<longrightarrow>
         generate_response_with_retry g = (k, Inl e)) \<and>
   (\<forall>e. (\<forall>j. 1 \<le> j \<and> j < 4 \<longrightarrow> (\<exists>e. g j = Inl e \<and> is_server_or_retry_error e)) \<and>
       g 4 = Inl e \<longrightarrow> generate_response_with_retry g = (4, Inl e)) \<and>
   (\<forall>e. is_server_or_retry_error e \<longleftrightarrow>
       (\<exists>m. e = RateLimitError m) \<or> (\<exists>m. e = JSONDecodeError m) \<or>
       (\<exists>code m. e = HTTPStatusError code m \<and> 500 \<le> code \<and> code < 600))"
proof -
  have run: "generate_response_with_retry g = tenacity_retry 4 is_server_or_retry_error g 1"
    by (simp add: generate_response_with_retry_def generate_response_with_retry_body_id)
  have skip: "tenacity_retry 4 is_server_or_retry_error g 1 =
      tenacity_retry 4 is_server_or_retry_error g k"
    if "1 \<le> k" "k \<le> 4"
      "\<forall>j. 1 \<le> j \<and> j < k \<longrightarrow> (\<exists>e. g j = Inl e \<and> is_server_or_retry_error e)" for k
    using that by (intro tenacity_retry_skip) auto
  have A: "1 \<le> fst (generate_response_with_retry g) \<and> fst (generate_response_with_retry g) \<le> 4"
    unfolding run using tenacity_retry_bounds [of 1 4] by simp
  have B: "generate_response_with_retry g = (k, Inr v)"
    if "1 \<le> k" "k \<le> 4"
      "\<forall>j. 1 \<le> j \<and> j < k \<longrightarrow> (\<exists>e. g j = Inl e \<and> is_server_or_retry_error e)"
      "g k = Inr v" for k v
    unfolding run skip [OF that(1-3)] using that(4) by (subst tenacity_retry.simps) simp
  have C: "generate_response_with_retry g = (k, Inl e)"
    if "1 \<le> k" "k \<le> 4"
      "\<forall>j. 1 \<le> j \<and> j < k \<longrightarrow> (\<exists>e. g j = Inl e \<and> is_server_or_retry_error e)"
      "g k = Inl e" "\<not> is_server_or_retry_error e" for k e
    unfolding run skip [OF that(1-3)] using that(4,5) by (subst tenacity_retry.simps) simp
  have D: "generate_response_with_retry g = (4, Inl e)"
    if "\<forall>j. 1 \<le> j \<and> j < 4 \<longrightarrow> (\<exists>e. g j = Inl e \<and> is_server_or_retry_error e)"
      "g 4 = Inl e" for e
  proof -
    have "tenacity_retry 4 is_server_or_retry_error g 1 =
        tenacity_retry 4 is_server_or_retry_error g 4"
      using that(1) by (intro skip) auto
    moreover have "tenacity_retry 4 is_server_or_retry_error g 4 = (4, Inl e)"
      using that(2) by (subst tenacity_retry.simps) simp
    ultimately show ?thesis unfolding run by simp
  qed
  have E: "is_server_or_retry_error e \<longleftrightarrow>
       (\<exists>m. e = RateLimitError m) \<or> (\<exists>m. e = JSONDecodeError m) \<or>
       (\<exists>code m. e = HTTPStatusError code m \<and> 500 \<le> code \<and> code < 600)" for e
    by (cases e) auto
  show ?thesis
    apply (intro conjI allI impI)
    subgoal using A by simp
    subgoal using A by simp
    subgoal for k v by (elim conjE) (rule B, assumption+)
    subgoal for k e by (elim conjE) (rule C, assumption+)
    subgoal for e by (elim conjE) (rule D, assumption+)
    subgoal for e by (rule E)
    done
qed

text \<open>
  The theorem at three runs: HTTP 503 three times and then a result; HTTP 503 on all four
  attempts; a \<open>ValueError\<close> on the first attempt.
\<close>

theorem retry_policy_witness:
  "generate_response_with_retry
     (\<lambda>k. if k < 4 then Inl (HTTPStatusError 503 []) else Inr (7::nat)) = (4, Inr 7) \<and>
   generate_response_with_retry
     (\<lambda>k. Inl (HTTPStatusError 503 []) :: exn + nat) = (4, Inl (HTTPStatusError 503 [])) \<and>
   generate_response_with_retry
     (\<lambda>k. Inl (ValueError []) :: exn + nat) = (1, Inl (ValueError []))"
proof -
  let ?g1 = "\<lambda>k::nat. if k < 4 then Inl (HTTPStatusError 503 []) else Inr (7::nat)"
  let ?g2 = "\<lambda>k::nat. Inl (HTTPStatusError 503 []) :: exn + nat"
  let ?g3 = "\<lambda>k::nat. Inl (ValueError []) :: exn + nat"
  have "generate_response_with_retry ?g1 = (4, Inr 7)"
    using retry_policy [of ?g1, THEN conjunct2, THEN conjunct1, rule_format, of 4 7]
    by simp
  moreover have "generate_response_with_retry ?g2 = (4, Inl (HTTPStatusError 503 []))"
    using retry_policy [of ?g2, THEN conjunct2, THEN conjunct2, THEN conjunct2,
        THEN conjunct1, rule_format, of "HTTPStatusError 503 []"]
    by simp
  moreover have "generate_response_with_retry ?g3 = (1, Inl (ValueError []))"
    using retry_policy [of ?g3, THEN conjunct2, THEN conjunct2, THEN conjunct1,
        rule_format, of 1 "ValueError []"]
    by simp
  ultimately show ?thesis by simp
qed

section \<open>Properties of the extractor\<close>

subsection \<open>Edge extraction\<close>

text \<open>
  C6. When fewer than two entity nodes are passed, \<open>extract_edges\<close> returns the empty list
  and the list of backend requests is the one it was given: no call is made. This holds
  for the extractor of the Numa module and for the one of the knowledge service, whatever
  the client would have answered.
\<close>

theorem extract_edges_skipped_below_two_nodes:
  "length nodes < 2 \<Longrightarrow>
     extract_edges cl nodes episode previous_episodes log = (log, Inr []) \<and>
     inhouse_extract_edges uuid4 cl nodes episode previous_episodes log = (log, Inr [])"
  by (simp add: extract_edges_def inhouse_extract_edges_def)

theorem extract_edges_skipped_below_two_nodes_witness:
  "length (take 1 self_loop_nodes) < 2 \<and>
   extract_edges self_loop_client (take 1 self_loop_nodes) self_loop_episode [] [] = ([], Inr []) \<and>
   inhouse_extract_edges example_uuid4 self_loop_client (take 1 self_loop_nodes)
     self_loop_episode [] [] = ([], Inr [])"
proof -
  have short: "length (take 1 self_loop_nodes) < 2"
    by (simp add: self_loop_nodes_def)
  from extract_edges_skipped_below_two_nodes [OF short] short show ?thesis
    by simp
qed

text \<open>
  The name-to-identifier map of the Numa extractor only holds identifiers of the nodes it
  was built from.
\<close>

lemma ran_upd_subset: "ran (m(k \<mapsto> v)) \<subseteq> insert v (ran m)"
  unfolding ran_def by (auto split: if_splits)

lemma ran_node_name_to_uuid_aux:
  "ran (foldl (\<lambda>m node. m(en_name node \<mapsto> en_uuid node)) m0 nodes) \<subseteq>
     ran m0 \<union> en_uuid ` set nodes"
proof (induction nodes arbitrary: m0)
  case Nil
  then show ?case by simp
next
  case (Cons node nodes)
  have A: "ran (foldl (\<lambda>m node. m(en_name node \<mapsto> en_uuid node))
             (m0(en_name node \<mapsto> en_uuid node)) nodes) \<subseteq>
           ran (m0(en_name node \<mapsto> en_uuid node)) \<union> en_uuid ` set nodes"
    by (rule Cons.IH)
  have B: "ran (m0(en_name node \<mapsto> en_uuid node)) \<subseteq> insert (en_uuid node) (ran m0)"
    by (rule ran_upd_subset)
  have C: "foldl (\<lambda>m node. m(en_name node \<mapsto> en_uuid node)) m0 (node # nodes) =
        foldl (\<lambda>m node. m(en_name node \<mapsto> en_uuid node)) (m0(en_name node \<mapsto> en_uuid node)) nodes"
    by (simp only: foldl_Cons)
  have D: "en_uuid ` set (node # nodes) = insert (en_uuid node) (en_uuid ` set nodes)"
    by simp
  show ?case
    unfolding C D using A B by blast
qed


lemma node_name_to_uuid_Some:
  assumes "node_name_to_uuid nodes name = Some u"
  shows "u \<in> en_uuid ` set nodes"
proof -
  from assms have "u \<in> ran (node_name_to_uuid nodes)"
    by (rule ranI)
  also have "\<dots> \<subseteq> en_uuid ` set nodes"
    using ran_node_name_to_uuid_aux [of Map.empty nodes]
    unfolding node_name_to_uuid_def by (simp only: ran_empty Un_empty_left)
  finally show ?thesis .
qed

lemma extract_edges_unfold:
  "\<not> length nodes < 2 \<Longrightarrow>
   extract_edges cl nodes episode previous_episodes log =
     (let req = (create_extract_edges_prompt
                   \<lparr>gx_episode_content = ep_content episode,
                    gx_previous_episodes = map ep_content previous_episodes,
                    gx_node_names = map en_name nodes\<rparr>, ExtractedEdges)
      in (log @ [req],
          case cl log req of
            Inl e \<Rightarrow> Inl e
          | Inr llm_resp \<Rightarrow>
              Inr (edge_nodes_loop episode (node_name_to_uuid nodes)
                     (get_or_empty (extracted_edges llm_resp)) [])))"
  unfolding extract_edges_def generate_response_def Let_def
  by (cases "cl log (create_extract_edges_prompt
                   \<lparr>gx_episode_content = ep_content episode,
                    gx_previous_episodes = map ep_content previous_episodes,
                    gx_node_names = map en_name nodes\<rparr>, ExtractedEdges)") simp_all

lemma edge_nodes_loop_keep:
  assumes "m (xe_source_name x) = Some su" "m (xe_target_name x) = Some tu"
     "su \<noteq> []" "tu \<noteq> []" "su \<noteq> tu"
  shows "edge_nodes_loop episode m (x # xs) acc = edge_nodes_loop episode m xs (acc @
     [\<lparr>ed_uuid = ep_group_id episode @ lit ''-edge-'' @ str_nat (length acc),
                 ed_source_node_uuid = su, ed_target_node_uuid = tu,
                 ed_relation_type = xe_relation_type x,
                 ed_summary = (case xe_summary x of None \<Rightarrow> [] | Some s \<Rightarrow> s),
                 ed_group_id = ep_group_id episode\<rparr>])"
  using assms by simp

lemma edge_nodes_loop_drop:
  assumes "\<not> (\<exists>su tu. m (xe_source_name x) = Some su \<and> m (xe_target_name x) = Some tu \<and>
     su \<noteq> [] \<and> tu \<noteq> [] \<and> su \<noteq> tu)"
  shows "edge_nodes_loop episode m (x # xs) acc = edge_nodes_loop episode m xs acc"
proof (cases "m (xe_source_name x)")
  case None
  then show ?thesis by simp
next
  case (Some su)
  note su = this
  show ?thesis
  proof (cases "m (xe_target_name x)")
    case None
    with su show ?thesis by simp
  next
    case (Some tu)
    with su assms consider "su = []" | "tu = []" | "su = tu" by blast
    then show ?thesis using su Some by cases simp_all
  qed
qed

lemma ball_snoc: "(\<forall>e \<in> set (acc @ [r]). Q e) \<longleftrightarrow> (\<forall>e \<in> set acc. Q e) \<and> Q r"
  by auto

lemma edge_nodes_loop_endpoints:
  assumes "\<forall>e \<in> set acc. ed_source_node_uuid e \<noteq> ed_target_node_uuid e \<and>
             ed_source_node_uuid e \<in> ran m \<and> ed_target_node_uuid e \<in> ran m"
  shows "\<forall>e \<in> set (edge_nodes_loop episode m edges acc).
           ed_source_node_uuid e \<noteq> ed_target_node_uuid e \<and>
           ed_source_node_uuid e \<in> ran m \<and> ed_target_node_uuid e \<in> ran m"
  using assms
proof (induction edges arbitrary: acc)
  case Nil
  then show ?case by simp
next
  case (Cons x xs)
  show ?case
  proof (cases "\<exists>su tu. m (xe_source_name x) = Some su \<and> m (xe_target_name x) = Some tu \<and>
     su \<noteq> [] \<and> tu \<noteq> [] \<and> su \<noteq> tu")
    case False
    from Cons.IH [OF Cons.prems] show ?thesis
      unfolding edge_nodes_loop_drop [OF False] .
  next
    case True
    then obtain su tu where st: "m (xe_source_name x) = Some su" "m (xe_target_name x) = Some tu"
      "su \<noteq> []" "tu \<noteq> []" "su \<noteq> tu"
      by blast
    have "su \<in> ran m" "tu \<in> ran m"
      using st(1,2) by (auto intro: ranI)
    have "\<forall>e \<in> set (acc @
     [\<lparr>ed_uuid = ep_group_id episode @ lit ''-edge-'' @ str_nat (length acc),
                 ed_source_node_uuid = su, ed_target_node_uuid = tu,
                 ed_relation_type = xe_relation_type x,
                 ed_summary = (case xe_summary x of None \<Rightarrow> [] | Some s \<Rightarrow> s),
                 ed_group_id = ep_group_id episode\<rparr>]).
        ed_source_node_uuid e \<noteq> ed_target_node_uuid e \<and>
             ed_source_node_uuid e \<in> ran m \<and> ed_target_node_uuid e \<in> ran m"
      unfolding ball_snoc
    proof (intro conjI)
      show "\<forall>e \<in> set acc. ed_source_node_uuid e \<noteq> ed_target_node_uuid e \<and>
             ed_source_node_uuid e \<in> ran m \<and> ed_target_node_uuid e \<in> ran m"
        by (rule Cons.prems)
    qed (simp_all only: EdgeNode.simps \<open>su \<in> ran m\<close> \<open>tu \<in> ran m\<close> st(5) not_False_eq_True)
    from Cons.IH [OF this] show ?thesis
      unfolding edge_nodes_loop_keep [OF st] .
  qed
qed

text \<open>
  What the extractor of the Numa module guarantees: every edge it returns joins two
  different identifiers, each the \<open>uuid\<close> of one of the nodes passed in. An extracted edge
  that does not resolve, or resolves to one identifier twice, adds nothing and raises
  nothing.
\<close>

lemma extract_edges_endpoints:
  assumes "extract_edges cl nodes episode previous_episodes log = (log', Inr edges)"
    and "e \<in> set edges"
  shows "ed_source_node_uuid e \<noteq> ed_target_node_uuid e \<and>
         ed_source_node_uuid e \<in> en_uuid ` set nodes \<and>
         ed_target_node_uuid e \<in> en_uuid ` set nodes"
proof (cases "length nodes < 2")
  case True
  with assms show ?thesis by (simp add: extract_edges_def)
next
  case False
  define req where "req = (create_extract_edges_prompt
                   \<lparr>gx_episode_content = ep_content episode,
                    gx_previous_episodes = map ep_content previous_episodes,
                    gx_node_names = map en_name nodes\<rparr>, ExtractedEdges)"
  from assms(1) extract_edges_unfold [OF False, of cl episode previous_episodes log]
  have res: "(case cl log req of
            Inl e \<Rightarrow> Inl e
          | Inr llm_resp \<Rightarrow>
              Inr (edge_nodes_loop episode (node_name_to_uuid nodes)
                     (get_or_empty (extracted_edges llm_resp)) [])) = Inr edges"
    by (simp add: Let_def req_def)
  show ?thesis
  proof (cases "cl log req")
    case (Inl err)
    with res show ?thesis by simp
  next
    case (Inr llm_resp)
    with res have edges: "edges = edge_nodes_loop episode (node_name_to_uuid nodes)
              (get_or_empty (extracted_edges llm_resp)) []"
      by simp
    have "\<forall>e \<in> set edges.
           ed_source_node_uuid e \<noteq> ed_target_node_uuid e \<and>
           ed_source_node_uuid e \<in> ran (node_name_to_uuid nodes) \<and>
           ed_target_node_uuid e \<in> ran (node_name_to_uuid nodes)"
      unfolding edges by (rule edge_nodes_loop_endpoints) simp
    moreover have "ran (node_name_to_uuid nodes) \<subseteq> en_uuid ` set nodes"
      using node_name_to_uuid_Some by (auto simp: ran_def)
    ultimately show ?thesis using assms(2) by blast
  qed
qed

text \<open>
  On the nodes and relationships of the episode \<open>See (alice). Alice manages Alice.\<close> the
  Numa extractor drops both extracted edges: the first resolves to the same identifier
  twice, the second does not resolve.
\<close>

lemma numa_drops_self_loop:
  "extract_edges self_loop_client self_loop_nodes self_loop_episode [] [] =
     ([(create_extract_edges_prompt
          \<lparr>gx_episode_content = ep_content self_loop_episode, gx_previous_episodes = [],
           gx_node_names = map en_name self_loop_nodes\<rparr>, ExtractedEdges)],
      Inr [])"
  by (simp add: extract_edges_def self_loop_nodes_def self_loop_episode_def
      self_loop_client_def generate_response_def node_name_to_uuid_def
      get_or_empty_def empty_response_def lit_def)

text \<open>
  C2. The claim asks that every edge returned by \<open>extract_edges\<close> joins two different
  resolved identifiers. The extractor of the knowledge service tests only that both names
  resolve: on the same input it keeps the edge from \<open>Alice\<close> to \<open>Alice\<close>, whose source
  identifier equals its target identifier.
\<close>

theorem inhouse_extract_edges_keeps_self_loop:
  "inhouse_extract_edges example_uuid4 self_loop_client self_loop_nodes self_loop_episode [] [] =
     ([([\<lparr>role = lit ''user'',
            content = lit ''Episode: See (alice). Alice manages Alice.'' @ [10] @
                      lit ''Entities: Episode, See, Alice, Alice Manages Alice'' @ [10]\<rparr>],
        ExtractedEdges)],
      Inr [\<lparr>ed_uuid = lit ''uuid-edge-0'',
            ed_source_node_uuid = lit ''uuid-c'',
            ed_target_node_uuid = lit ''uuid-c'',
            ed_relation_type = lit ''manages'',
            ed_summary = lit ''Alice manages Alice'',
            ed_group_id = lit ''default''\<rparr>])"
  by (simp add: inhouse_extract_edges_def self_loop_nodes_def self_loop_episode_def
      self_loop_client_def example_uuid4_def generate_response_def node_map_def
      get_or_empty_def empty_response_def lit_def)

subsection \<open>The reflexion loop\<close>

text \<open>
  The run of \<open>extract_nodes\<close> on the example episode with a backend that reports a missed
  entity on every reflexion: the requests it makes, in order. \<open>E\<close> is the extraction
  request, built from the context as it was before the loop, and \<open>R\<close> the reflexion
  request.
\<close>

lemma always_missing_log:
  "fst (extract_nodes always_missing_client example_episode [] EntityTypesNone []) =
     (let E = (create_extract_message_prompt
                 (initial_extract_context example_episode [] EntityTypesNone), ExtractedEntities);
          R = (create_reflexion_prompt
                 \<lparr>rx_episode_content = ep_content example_episode, rx_previous_episodes = [],
                  rx_extracted_entities = [lit ''Alice'']\<rparr>, MissedEntities)
      in [E, R, E, R, E, E])"
  by (simp add: extract_nodes_def extract_nodes_loop.simps initial_loop_state_def
      extract_entities_call_def extract_nodes_reflexion_def generate_response_def
      always_missing_client_def example_episode_def MAX_REFLEXION_ITERATIONS_def
      get_or_empty_def empty_response_def Let_def split: prod.splits)

lemma example_user_content:
  "content (create_extract_message_prompt
              (initial_extract_context example_episode [] EntityTypesNone) ! 1) =
   [10] @ lit ''<PREVIOUS MESSAGES>'' @ [10, 10] @
   lit ''</PREVIOUS MESSAGES>'' @ [10, 10] @
   lit ''<CURRENT MESSAGE>'' @ [10] @
   lit ''Alice met Bob.'' @ [10] @
   lit ''</CURRENT MESSAGE>'' @ [10, 10] @
   lit ''<ENTITY TYPES>'' @ [10] @
   py_repr_entity_types [default_entity_type] @ [10] @
   lit ''</ENTITY TYPES>'' @ [10, 10, 10, 10] @
   lit ''Extract entities mentioned in the CURRENT MESSAGE only.''"
  by (simp add: create_extract_message_prompt_def initial_extract_context_def
      example_episode_def Let_def)

lemma example_user_content_without_zed:
  "\<not> py_in (lit ''Zed'') (content (create_extract_message_prompt
              (initial_extract_context example_episode [] EntityTypesNone) ! 1))"
  unfolding example_user_content by code_simp

lemma example_user_content_without_instruction:
  "\<not> py_in (lit ''Make sure that the following entities are extracted'')
       (content (create_extract_message_prompt
              (initial_extract_context example_episode [] EntityTypesNone) ! 1))"
  unfolding example_user_content by code_simp

text \<open>
  C1. The claim bounds the extract/reflect cycles of one episode by
  \<open>MAX_REFLEXION_ITERATIONS\<close>, which is 3. With a backend whose every reflexion reports a
  missed entity, the loop body runs four times: four extraction requests and two reflexion
  requests are made, since the loop test is \<open>reflexion_iterations <= MAX_REFLEXION_ITERATIONS\<close>
  and the counter starts at 0.
\<close>

theorem reflexion_loop_runs_four_cycles:
  "length (filter (\<lambda>req. snd req = ExtractedEntities)
     (fst (extract_nodes always_missing_client example_episode [] EntityTypesNone []))) = 4 \<and>
   length (filter (\<lambda>req. snd req = MissedEntities)
     (fst (extract_nodes always_missing_client example_episode [] EntityTypesNone []))) = 2 \<and>
   MAX_REFLEXION_ITERATIONS = 3"
  by (simp add: always_missing_log Let_def MAX_REFLEXION_ITERATIONS_def)

text \<open>
  C3. The claim asks that after a reflexion that reports missed entities the next extraction
  prompt names them. In the same run the second request is a reflexion that the backend
  answers with the missed entity \<open>Zed\<close>; the third request, the next extraction, is equal
  to the first one, and its user message holds neither \<open>Zed\<close> nor the instruction
  \<open>Make sure that the following entities are extracted\<close>: the loop assigns the local
  variable \<open>custom_prompt\<close>, and the prompt is built from \<open>context\<close>, which keeps the empty
  string stored before the loop.
\<close>

theorem missed_entities_absent_from_next_prompt:
  "(let log = fst (extract_nodes always_missing_client example_episode [] EntityTypesNone [])
    in snd (log ! 1) = MissedEntities \<and>
       always_missing_client (take 1 log) (log ! 1) =
         Inr (empty_response\<lparr>missed_entities := Some [lit ''Zed'']\<rparr>) \<and>
       snd (log ! 2) = ExtractedEntities \<and>
       log ! 2 = log ! 0 \<and>
       \<not> py_in (lit ''Zed'') (content (fst (log ! 2) ! 1)) \<and>
       \<not> py_in (lit ''Make sure that the following entities are extracted'')
           (content (fst (log ! 2) ! 1)))"
  using example_user_content_without_zed example_user_content_without_instruction
  by (simp add: always_missing_log Let_def always_missing_client_def)

section \<open>Properties of the extraction service\<close>

lemma example_extract_with_numa:
  "extract_with_numa example_env always_missing_client example_request =
     Inr \<lparr>resp_success = True,
          resp_extracted_nodes =
            [\<lparr>en_uuid = lit ''g-0'', en_name = lit ''Alice'', en_labels = [lit ''Entity''],
              en_summary = [], en_group_id = lit ''g''\<rparr>],
          resp_extracted_edges = [],
          resp_error = None\<rparr>"
  by code_simp

text \<open>
  C5, as the claim states it, fails: the remote extraction ends in HTTP 503 and the local
  client is present; \<open>extract_knowledge\<close> then runs the local extraction and returns its
  successful result, and the remote failure is not reported.
\<close>

theorem remote_failure_replaced_by_local_result:
  "llm_unavailable example_request = Inl (HTTPStatusError 503 (lit ''Service Unavailable'')) \<and>
   rq_use_numa example_request = Some False \<and>
   extract_knowledge
     \<lparr>llm_client = Some llm_unavailable,
      numa_client = Some (extract_with_numa example_env always_missing_client)\<rparr>
     example_request =
     \<lparr>resp_success = True,
      resp_extracted_nodes =
        [\<lparr>en_uuid = lit ''g-0'', en_name = lit ''Alice'', en_labels = [lit ''Entity''],
          en_summary = [], en_group_id = lit ''g''\<rparr>],
      resp_extracted_edges = [],
      resp_error = None\<rparr>"
  by (simp add: extract_knowledge_def extract_knowledge_body_def llm_attempt_def
      llm_unavailable_def example_extract_with_numa)
    (simp add: example_request_def)

text \<open>
  C5, amended. When the request does not ask for the local backend and the extraction with
  the remote client raises, \<open>extract_knowledge\<close> goes on to the local client: if one is
  present the call ends as the local extraction ends, with its result or with the failure
  response made from the local exception; if none is present the call ends with the
  failure response whose error is \<open>No extraction clients available\<close>. The exception of the
  remote extraction is in neither.
\<close>

theorem remote_failure_falls_back:
  assumes "rq_use_numa request \<noteq> Some True"
    and "llm_client svc = Some extract_with_llm"
    and "extract_with_llm request = Inl e"
  shows
    "(\<forall>numa. numa_client svc = Some numa \<longrightarrow>
        extract_knowledge svc request =
          (case numa request of
             Inr result \<Rightarrow> result
           | Inl e' \<Rightarrow>
               \<lparr>resp_success = False, resp_extracted_nodes = [], resp_extracted_edges = [],
                resp_error = Some (exn_str e')\<rparr>)) \<and>
     (numa_client svc = None \<longrightarrow>
        extract_knowledge svc request =
          \<lparr>resp_success = False, resp_extracted_nodes = [], resp_extracted_edges = [],
           resp_error = Some (lit ''No extraction clients available'')\<rparr>)"
proof -
  from assms have "llm_attempt svc request = None"
    by (simp add: llm_attempt_def)
  then show ?thesis
    by (simp add: extract_knowledge_def extract_knowledge_body_def split: sum.splits)
qed

theorem remote_failure_falls_back_witness:
  "rq_use_numa example_request \<noteq> Some True \<and>
   llm_unavailable example_request = Inl (HTTPStatusError 503 (lit ''Service Unavailable'')) \<and>
   extract_knowledge \<lparr>llm_client = Some llm_unavailable, numa_client = Some numa_raises_bare\<rparr>
     example_request =
     \<lparr>resp_success = False, resp_extracted_nodes = [], resp_extracted_edges = [],
      resp_error = Some []\<rparr> \<and>
   extract_knowledge \<lparr>llm_client = Some llm_unavailable, numa_client = None\<rparr> example_request =
     \<lparr>resp_success = False, resp_extracted_nodes = [], resp_extracted_edges = [],
      resp_error = Some (lit ''No extraction clients available'')\<rparr>"
proof -
  have a: "rq_use_numa example_request \<noteq> Some True"
    by (simp add: example_request_def)
  have b: "llm_unavailable example_request = Inl (HTTPStatusError 503 (lit ''Service Unavailable''))"
    by (simp add: llm_unavailable_def)
  have "extract_knowledge \<lparr>llm_client = Some llm_unavailable, numa_client = Some numa_raises_bare\<rparr>
     example_request =
     \<lparr>resp_success = False, resp_extracted_nodes = [], resp_extracted_edges = [],
      resp_error = Some []\<rparr>"
    using remote_failure_falls_back
      [of example_request "\<lparr>llm_client = Some llm_unavailable, numa_client = Some numa_raises_bare\<rparr>"
        llm_unavailable, OF a _ b]
    by (simp add: numa_raises_bare_def)
  moreover have "extract_knowledge \<lparr>llm_client = Some llm_unavailable, numa_client = None\<rparr>
      example_request =
     \<lparr>resp_success = False, resp_extracted_nodes = [], resp_extracted_edges = [],
      resp_error = Some (lit ''No extraction clients available'')\<rparr>"
    using remote_failure_falls_back
      [of example_request "\<lparr>llm_client = Some llm_unavailable, numa_client = None\<rparr>"
        llm_unavailable, OF a _ b]
    by simp
  ultimately show ?thesis using a b by simp
qed

text \<open>
  C10, as the claim states it, fails in its last part: the local extraction raises an
  exception whose \<open>str\<close> is empty, and the failure response carries the empty string as
  its error.
\<close>

theorem failure_response_with_empty_error:
  "extract_knowledge \<lparr>llm_client = None, numa_client = Some numa_raises_bare\<rparr> example_request =
     \<lparr>resp_success = False, resp_extracted_nodes = [], resp_extracted_edges = [],
      resp_error = Some []\<rparr>"
  by (simp add: extract_knowledge_def extract_knowledge_body_def llm_attempt_def
      numa_raises_bare_def)

text \<open>
  C10, amended. \<open>extract_knowledge\<close> returns a response for every service and request, and
  no exception derived from \<open>Exception\<close> leaves it. Either the remote or the local
  extraction returned a result, which is the response; or no result came from the remote
  path and the local path raised \<open>e\<close> (the exception of the local extraction, or the
  \<open>RuntimeError\<close> raised when there is no local client), and the response has
  \<open>success=False\<close>, no nodes, no edges and the error \<open>str(e)\<close>.
\<close>

theorem extract_knowledge_always_responds:
  "(\<exists>result.
      (llm_attempt svc request = Some result \<or>
       llm_attempt svc request = None \<and>
         (\<exists>numa. numa_client svc = Some numa \<and> numa request = Inr result)) \<and>
      extract_knowledge svc request = result) \<or>
   (\<exists>e.
      llm_attempt svc request = None \<and>
      (numa_client svc = None \<and> e = RuntimeError (lit ''No extraction clients available'') \<or>
       (\<exists>numa. numa_client svc = Some numa \<and> numa request = Inl e)) \<and>
      extract_knowledge svc request =
        \<lparr>resp_success = False, resp_extracted_nodes = [], resp_extracted_edges = [],
         resp_error = Some (exn_str e)\<rparr>)"
proof (cases "llm_attempt svc request")
  case (Some result)
  then show ?thesis
    by (simp add: extract_knowledge_def extract_knowledge_body_def)
next
  case None
  note no_llm = this
  show ?thesis
  proof (cases "numa_client svc")
    case None
    with no_llm show ?thesis
      by (simp add: extract_knowledge_def extract_knowledge_body_def)
  next
    case (Some numa)
    with no_llm show ?thesis
      by (cases "numa request") (simp_all add: extract_knowledge_def extract_knowledge_body_def)
  qed
qed

section \<open>Properties of the local extractors\<close>

subsection \<open>Matches of the proper-noun pattern\<close>

lemma letters_not_space:
  "is_upper_ascii c \<Longrightarrow> \<not> is_space c" "is_lower_ascii c \<Longrightarrow> \<not> is_space c"
  by (auto simp: is_upper_ascii_def is_lower_ascii_def is_space_def)

lemma ascii_lower_cases:
  "is_space c \<Longrightarrow> ascii_lower c = c"
  "is_lower_ascii c \<Longrightarrow> ascii_lower c = c"
  "is_upper_ascii c \<Longrightarrow> is_lower_ascii (ascii_lower c)"
  by (auto simp: ascii_lower_def is_upper_ascii_def is_lower_ascii_def is_space_def)

lemma ascii_lower_inj_upper:
  "is_upper_ascii c \<Longrightarrow> is_upper_ascii d \<Longrightarrow> ascii_lower c = ascii_lower d \<Longrightarrow> c = d"
  by (simp add: ascii_lower_def)

lemma well_cased_lower_inj:
  "well_cased st a \<Longrightarrow> well_cased st b \<Longrightarrow> map ascii_lower a = map ascii_lower b \<Longrightarrow> a = b"
proof (induction a arbitrary: b st)
  case Nil
  then show ?case by simp
next
  case (Cons c cs)
  then obtain d ds where b: "b = d # ds" by (cases b) auto
  from Cons.prems b have eq: "ascii_lower c = ascii_lower d" "map ascii_lower cs = map ascii_lower ds"
    by simp_all
  show ?case
  proof (cases "is_space c")
    case True
    then have c: "ascii_lower c = c" by (rule ascii_lower_cases)
    have "is_space d"
    proof (rule ccontr)
      assume nd: "\<not> is_space d"
      with Cons.prems(2) b have "is_upper_ascii d \<or> is_lower_ascii d"
        by (auto split: if_splits)
      then have "is_lower_ascii (ascii_lower d)"
        using ascii_lower_cases(2,3) by auto
      with eq(1) c letters_not_space(2) True show False by auto
    qed
    then have "ascii_lower d = d" by (rule ascii_lower_cases)
    with c eq(1) have "c = d" by simp
    moreover have "cs = ds"
      using Cons.IH [of True ds] Cons.prems b True \<open>is_space d\<close> eq(2) by simp
    ultimately show ?thesis using b by simp
  next
    case False
    have nd: "\<not> is_space d"
    proof
      assume sd: "is_space d"
      then have "ascii_lower d = d" by (rule ascii_lower_cases)
      moreover from Cons.prems(1) False have "is_upper_ascii c \<or> is_lower_ascii c"
        by (auto split: if_splits)
      then have "is_lower_ascii (ascii_lower c)"
        using ascii_lower_cases(2,3) by auto
      ultimately show False using eq(1) sd letters_not_space(2) by auto
    qed
    have "c = d"
    proof (cases st)
      case True
      with Cons.prems b False nd have "is_upper_ascii c" "is_upper_ascii d" by simp_all
      then show ?thesis using eq(1) by (rule ascii_lower_inj_upper)
    next
      case False
      with Cons.prems b \<open>\<not> is_space c\<close> nd have "is_lower_ascii c" "is_lower_ascii d" by simp_all
      with eq(1) show ?thesis by (simp add: ascii_lower_cases(2))
    qed
    moreover have "cs = ds"
      using Cons.IH [of False ds] Cons.prems b False nd eq(2) by (simp split: if_splits)
    ultimately show ?thesis using b by simp
  qed
qed

lemma well_cased_ascii_or_space:
  "well_cased st a \<Longrightarrow> list_all (\<lambda>c. c < 128 \<or> is_space c) a"
  by (induction a arbitrary: st)
    (auto simp: is_upper_ascii_def is_lower_ascii_def split: if_splits)

lemma well_cased_py_lower:
  "well_cased st a \<Longrightarrow> py_lower ul a = map ascii_lower a"
  by (simp add: py_lower_def well_cased_ascii_or_space)

lemma well_cased_append:
  "well_cased st (xs @ ys) \<longleftrightarrow>
     well_cased st xs \<and> well_cased (if xs = [] then st else is_space (last xs)) ys"
  by (induction xs arbitrary: st) auto

lemma well_cased_lower_run:
  "\<forall>c \<in> set ls. is_lower_ascii c \<Longrightarrow> well_cased False ls"
  by (induction ls) (auto simp: letters_not_space)

lemma well_cased_space_run:
  "\<forall>c \<in> set ws. is_space c \<Longrightarrow> well_cased st ws"
  by (induction ws arbitrary: st) auto

text \<open>Every match of the proper-noun pattern has the shape \<open>well_cased\<close>.\<close>

lemma take_word_well_cased:
  assumes "take_word s = Some (w, r)"
  shows "well_cased True w \<and> w \<noteq> [] \<and> \<not> is_space (last w)"
proof -
  from assms obtain c cs where s: "s = c # cs" by (cases s) auto
  with assms have c: "is_upper_ascii c" and ne: "takeWhile is_lower_ascii cs \<noteq> []"
    and w: "w = c # takeWhile is_lower_ascii cs"
    by (auto split: if_splits)
  have low: "\<forall>x \<in> set (takeWhile is_lower_ascii cs). is_lower_ascii x"
    by (auto dest: set_takeWhileD)
  then have "well_cased False (takeWhile is_lower_ascii cs)"
    by (rule well_cased_lower_run)
  moreover have "is_lower_ascii (last (takeWhile is_lower_ascii cs))"
    using low ne last_in_set by blast
  ultimately show ?thesis
    using c w ne by (simp add: letters_not_space)
qed

lemma match_tail_well_cased:
  "match_tail uni_alnum r = Some (m, r') \<Longrightarrow>
     well_cased False m \<and> (m \<noteq> [] \<longrightarrow> \<not> is_space (last m))"
proof (induction uni_alnum r arbitrary: m r' rule: match_tail.induct)
  case (1 uni_alnum r)
  let ?ws = "takeWhile is_space r"
  have here: "well_cased False m \<and> (m \<noteq> [] \<longrightarrow> \<not> is_space (last m))"
    if "(if end_boundary uni_alnum r then Some ([], r) else None) = Some (m, r')"
    using that by (auto split: if_splits)
  show ?case
  proof (cases "?ws = []")
    case True
    with "1.prems" have "(if end_boundary uni_alnum r then Some ([], r) else None) = Some (m, r')"
      by (subst (asm) match_tail.simps) (simp add: Let_def)
    then show ?thesis by (rule here)
  next
    case False
    show ?thesis
    proof (cases "take_word (dropWhile is_space r)")
      case None
      with False "1.prems"
      have "(if end_boundary uni_alnum r then Some ([], r) else None) = Some (m, r')"
        by (subst (asm) match_tail.simps) (simp add: Let_def)
      then show ?thesis by (rule here)
    next
      case (Some p)
      obtain w r1 where p: "p = (w, r1)" by (cases p)
      show ?thesis
      proof (cases "match_tail uni_alnum r1")
        case None
        with False Some p "1.prems"
        have "(if end_boundary uni_alnum r then Some ([], r) else None) = Some (m, r')"
          by (subst (asm) match_tail.simps) (simp add: Let_def)
        then show ?thesis by (rule here)
      next
        case inner: (Some q)
        obtain m1 r2 where q: "q = (m1, r2)" by (cases q)
        have m: "m = ?ws @ w @ m1"
          using False Some p inner q "1.prems"
          by (subst (asm) match_tail.simps) (simp add: Let_def)
        have m1: "well_cased False m1 \<and> (m1 \<noteq> [] \<longrightarrow> \<not> is_space (last m1))"
          using "1.IH" [OF refl refl False Some p [symmetric]] inner q by simp
        have w: "well_cased True w \<and> w \<noteq> [] \<and> \<not> is_space (last w)"
          using take_word_well_cased Some p by simp
        have spaces: "\<forall>c \<in> set ?ws. is_space c"
          by (auto dest: set_takeWhileD)
        then have ws: "well_cased False ?ws"
          by (rule well_cased_space_run)
        have last_ws: "is_space (last ?ws)"
          using spaces False last_in_set by blast
        have "well_cased False (?ws @ (w @ m1))"
          unfolding well_cased_append [of False ?ws] well_cased_append [of _ w]
          using ws last_ws False w m1 by simp
        moreover have "\<not> is_space (last (?ws @ w @ m1))"
          using w m1 by (cases "m1 = []") simp_all
        ultimately show ?thesis using m by simp
      qed
    qed
  qed
qed

lemma match_at_well_cased:
  assumes "match_at uni_alnum s = Some (m, r)"
  shows "well_cased True m"
proof -
  from assms obtain w r1 m1 where w: "take_word s = Some (w, r1)"
    and t: "match_tail uni_alnum r1 = Some (m1, r)" and m: "m = w @ m1"
    by (auto simp: match_at_def split: option.splits prod.splits)
  from take_word_well_cased [OF w] match_tail_well_cased [OF t] show ?thesis
    unfolding m well_cased_append by simp
qed

lemma findall_proper_nouns_well_cased:
  "\<forall>m \<in> set (findall_proper_nouns uni_alnum prev_word s). well_cased True m"
proof (induction uni_alnum prev_word s rule: findall_proper_nouns.induct)
  case (1 uni_alnum prev_word)
  then show ?case by simp
next
  case (2 uni_alnum prev_word c cs)
  show ?case
  proof (cases "if prev_word then None else match_at uni_alnum (c # cs)")
    case None
    with "2.IH"(1) show ?thesis by simp
  next
    case (Some p)
    obtain m r where p: "p = (m, r)" by (cases p)
    from Some p have "match_at uni_alnum (c # cs) = Some (m, r)"
      by (simp split: if_splits)
    then have "well_cased True m" by (rule match_at_well_cased)
    moreover have "\<forall>m \<in> set (findall_proper_nouns uni_alnum True r). well_cased True m"
      using "2.IH"(2) [OF Some p [symmetric]] .
    ultimately show ?thesis using Some p by simp
  qed
qed

lemma fromkeys_distinct:
  "distinct keys \<Longrightarrow> distinct (fromkeys keys xs) \<and> set (fromkeys keys xs) = set keys \<union> set xs"
  by (induction xs arbitrary: keys) auto

lemma distinct_map_take:
  "distinct (map f xs) \<Longrightarrow> distinct (map f (take n xs))"
  by (simp add: distinct_take take_map [symmetric])

subsection \<open>The entity lists\<close>

lemma extract_from_prompt_entities_case_distinct:
  "distinct (map (py_lower ul) (extract_from_prompt_entities uni_alnum input_text)) \<and>
   length (extract_from_prompt_entities uni_alnum input_text) \<le> 10"
proof -
  define entities where "entities =
     filter (\<lambda>noun. noun \<notin> stopwords \<and> length noun > 1)
       (findall_proper_nouns uni_alnum False input_text)"
  have wc: "\<forall>m \<in> set (fromkeys [] entities). well_cased True m"
    using findall_proper_nouns_well_cased [of uni_alnum False input_text] fromkeys_distinct [of "[]" entities]
    by (auto simp: entities_def)
  have "inj_on (py_lower ul) (set (fromkeys [] entities))"
  proof (rule inj_onI)
    fix a b
    assume "a \<in> set (fromkeys [] entities)" "b \<in> set (fromkeys [] entities)"
      and "py_lower ul a = py_lower ul b"
    with wc have ab: "well_cased True a" "well_cased True b"
      and eq: "py_lower ul a = py_lower ul b"
      by auto
    from eq have "map ascii_lower a = map ascii_lower b"
      unfolding well_cased_py_lower [OF ab(1)] well_cased_py_lower [OF ab(2)] .
    with ab show "a = b" by (rule well_cased_lower_inj)
  qed
  moreover have "distinct (fromkeys [] entities)"
    using fromkeys_distinct [of "[]" entities] by simp
  ultimately have "distinct (map (py_lower ul) (fromkeys [] entities))"
    by (simp add: distinct_map)
  then have "distinct (map (py_lower ul) (take 10 (fromkeys [] entities)))"
    by (rule distinct_map_take)
  moreover have "extract_from_prompt_entities uni_alnum input_text = take 10 (fromkeys [] entities)"
    by (simp add: extract_from_prompt_entities_def Let_def entities_def)
  ultimately show ?thesis by simp
qed

lemma extract_entities_step_inv:
  "case_distinct_inv uc state \<Longrightarrow> case_distinct_inv uc (extract_entities_step uc text_in state matched)"
  by (cases state) (auto simp: case_distinct_inv_def extract_entities_step_def Let_def)

lemma foldl_step_inv:
  "case_distinct_inv uc state \<Longrightarrow>
     case_distinct_inv uc (foldl (extract_entities_step uc text_in) state ms)"
  by (induction ms arbitrary: state) (simp_all add: extract_entities_step_inv)

lemma foldl_patterns_inv:
  "case_distinct_inv uc state \<Longrightarrow>
     case_distinct_inv uc
       (foldl (\<lambda>state pattern.
                 foldl (extract_entities_step uc text_in) state (finditer pattern text_in))
              state ps)"
  by (induction ps arbitrary: state) (simp_all add: foldl_step_inv)

lemma inhouse_extract_entities_case_distinct:
  "distinct (map (py_lower (uni_lower uc)) (map ee_name (inhouse_extract_entities finditer uc text_in))) \<and>
   length (inhouse_extract_entities finditer uc text_in) \<le> 20"
proof -
  define final where "final =
     foldl (\<lambda>state pattern.
                 foldl (extract_entities_step uc text_in) state (finditer pattern text_in))
              ([], {}) [0..<6]"
  have "case_distinct_inv uc ([], {})"
    by (simp add: case_distinct_inv_def)
  then have "case_distinct_inv uc final"
    unfolding final_def by (rule foldl_patterns_inv)
  then have "distinct (map (py_lower (uni_lower uc)) (map ee_name (fst final)))"
    by (simp add: case_distinct_inv_def)
  then have "distinct (map (py_lower (uni_lower uc)) (map ee_name (take 20 (fst final))))"
    by (simp add: distinct_take take_map [symmetric])
  moreover have "inhouse_extract_entities finditer uc text_in = take 20 (fst final)"
    by (simp add: inhouse_extract_entities_def final_def Let_def split: prod.splits)
  ultimately show ?thesis by simp
qed

text \<open>
  C8. For every input text the entity list of the local extractor holds no two names that
  are equal after \<open>lower()\<close>, and it is no longer than its cap: 10 names for
  \<open>LocalExtractor._extract_from_prompt\<close>, 20 entities for
  \<open>InHouseLLMClient._extract_entities\<close>. The first removes duplicates by exact comparison,
  which is enough because every match of its pattern is spelled with upper-case letters
  exactly at the start of its words; the second compares the lower-case forms.
\<close>

theorem local_extractors_deduplicate_ignoring_case:
  "distinct (map (py_lower (uni_lower uc))
              (extract_from_prompt_entities uni_alnum input_text)) \<and>
   length (extract_from_prompt_entities uni_alnum input_text) \<le> 10 \<and>
   distinct (map (py_lower (uni_lower uc))
              (map ee_name (inhouse_extract_entities finditer uc text_in))) \<and>
   length (inhouse_extract_entities finditer uc text_in) \<le> 20"
  using extract_from_prompt_entities_case_distinct [of "uni_lower uc" uni_alnum input_text]
    inhouse_extract_entities_case_distinct [of uc finditer text_in]
  by simp

section \<open>Properties of the fallback embedding\<close>

text \<open>
  The vectors have 384 components when the generator returns as many numbers as it is
  asked for and the normalization keeps the length.
\<close>

lemma generate_mock_embeddings_length:
  assumes "\<And>seed n. length (randn seed n) = n" and "\<And>v. length (unit_norm v) = length v"
  shows "\<forall>e \<in> set (generate_mock_embeddings py_hash randn unit_norm texts). length e = 384"
  using assms by (simp add: generate_mock_embeddings_def dimension_def Let_def)

text \<open>
  What is repeatable: two runs give the same vectors when their hash functions give the
  same seed for every text, as two calls in one process do. Nothing makes the seeds of two
  processes equal: the seed is the keyed hash of the process, reduced modulo \<open>2^31\<close>.
\<close>

lemma generate_mock_embeddings_same_seed:
  assumes "\<forall>t \<in> set texts. mock_seed hash1 t = mock_seed hash2 t"
  shows "generate_mock_embeddings hash1 randn unit_norm texts =
         generate_mock_embeddings hash2 randn unit_norm texts"
  using assms by (simp add: generate_mock_embeddings_def Let_def)

lemma mock_seed_bound: "mock_seed py_hash t < 2 ^ 31"
proof -
  have "py_hash t mod 2 ^ 31 < 2 ^ 31"
    by simp
  then show ?thesis
    unfolding mock_seed_def by (simp add: nat_less_iff)
qed

lemma mock_seed_follows_hash:
  assumes "hash1 t mod 2 ^ 31 \<noteq> hash2 t mod 2 ^ 31"
  shows "mock_seed hash1 t \<noteq> mock_seed hash2 t"
proof -
  have "0 \<le> hash1 t mod 2 ^ 31" "0 \<le> hash2 t mod 2 ^ 31"
    by simp_all
  with assms show ?thesis
    unfolding mock_seed_def by (simp add: nat_eq_iff)
qed

text \<open>
  The seeds of the two example processes for the text \<open>hello\<close>, and the vectors they
  return: the normalized draws of the generator seeded with 528404942 in the first process
  and with 1284086339 in the second.
\<close>

lemma example_processes_seeds:
  "mock_seed process_a_hash (lit ''hello'') = 528404942 \<and>
   mock_seed process_b_hash (lit ''hello'') = 1284086339"
  by (simp add: mock_seed_def process_a_hash_def process_b_hash_def)

lemma example_processes_vectors:
  "generate_mock_embeddings process_a_hash randn unit_norm [lit ''hello''] =
     [unit_norm (randn 528404942 384)] \<and>
   generate_mock_embeddings process_b_hash randn unit_norm [lit ''hello''] =
     [unit_norm (randn 1284086339 384)]"
  using example_processes_seeds
  by (simp add: generate_mock_embeddings_def dimension_def Let_def)

text \<open>
  C7. The claim asks that two independent runs give bit-identical vectors for the same
  text. The seed of the generator is \<open>hash(text) % (2**31)\<close>, and \<open>hash\<close> is keyed by the
  process. Take two runs whose hash functions are \<open>hash_a\<close> and \<open>hash_b\<close>, and a text \<open>t\<close>
  among those embedded. If the two hashes of \<open>t\<close> differ modulo \<open>2^31\<close>, and if the generator
  followed by the normalization gives different vectors for different seeds below \<open>2^31\<close>,
  then the two runs return different lists of vectors: the fallback embedding of the same
  text is not the same in the two runs.
\<close>

theorem mock_embeddings_differ_across_processes:
  assumes "hash_a t mod 2 ^ 31 \<noteq> hash_b t mod 2 ^ 31"
    and "\<forall>s1 < 2 ^ 31. \<forall>s2 < 2 ^ 31. s1 \<noteq> s2 \<longrightarrow>
           unit_norm (randn s1 dimension) \<noteq> unit_norm (randn s2 dimension)"
    and "t \<in> set texts"
  shows "generate_mock_embeddings hash_a randn unit_norm texts \<noteq>
         generate_mock_embeddings hash_b randn unit_norm texts"
proof
  assume eq: "generate_mock_embeddings hash_a randn unit_norm texts =
              generate_mock_embeddings hash_b randn unit_norm texts"
  have "unit_norm (randn (mock_seed hash_a t) dimension) =
        unit_norm (randn (mock_seed hash_b t) dimension)"
    using eq assms(3) by (simp add: generate_mock_embeddings_def Let_def)
  moreover have "mock_seed hash_a t \<noteq> mock_seed hash_b t"
    using assms(1) by (rule mock_seed_follows_hash)
  moreover have "mock_seed hash_a t < 2 ^ 31" "mock_seed hash_b t < 2 ^ 31"
    by (rule mock_seed_bound)+
  ultimately show False
    using assms(2) by blast
qed

text \<open>
  An instance: the two example processes embed \<open>hello\<close>, with a generator that returns its
  seed in every component and a normalization that returns its argument. The hashes differ
  modulo \<open>2^31\<close> (the seeds are 528404942 and 1284086339), and the two runs return different
  vectors.
\<close>

theorem mock_embeddings_differ_across_processes_witness:
  "generate_mock_embeddings process_a_hash (\<lambda>seed n. replicate n seed) (\<lambda>v. v)
     [lit ''hello''] \<noteq>
   generate_mock_embeddings process_b_hash (\<lambda>seed n. replicate n seed) (\<lambda>v. v)
     [lit ''hello'']"
proof -
  have h: "process_a_hash (lit ''hello'') mod 2 ^ 31 \<noteq> process_b_hash (lit ''hello'') mod 2 ^ 31"
    by (simp add: process_a_hash_def process_b_hash_def)
  have g: "\<forall>s1 < 2 ^ 31. \<forall>s2 < 2 ^ 31. s1 \<noteq> s2 \<longrightarrow>
           (\<lambda>v. v) ((\<lambda>seed n. replicate n seed) s1 dimension) \<noteq>
           (\<lambda>v::nat list. v) ((\<lambda>seed n. replicate n seed) s2 dimension)"
    by (simp add: dimension_def)
  have m: "lit ''hello'' \<in> set [lit ''hello'']"
    by simp
  show ?thesis
    using mock_embeddings_differ_across_processes
      [of process_a_hash "lit ''hello''" process_b_hash "\<lambda>v. v" "\<lambda>seed n. replicate n seed"
          "[lit ''hello'']", OF h g m] .
qed

end
